theory Spec2Isabelle
  imports Main "HOL-Library.Sublist" "HOL-Library.Finite_Map" "HOL-Library.AList"
    "HOL-Library.List_Lexorder" "HOL-Library.Char_ord"
begin

section \<open>Enumerations, exceptions and Python values\<close>

text \<open>
  \<^verbatim>\<open>enums.py\<close>: the two string enumerations of the integration.
\<close>

datatype ConfigurationType = YAML | CONFIG_ENTRY

datatype muiDisabledReason = RATE_LIMIT | INVALID_TOKEN | LOAD_MUI

text \<open>
  The exceptions (subclasses of \<^verbatim>\<open>Exception\<close>) that the modelled statements raise.
  \<open>InvalidConfiguration\<close> is \<^verbatim>\<open>Exception("Configuration is not valid.")\<close> of
  \<^verbatim>\<open>update_from_dict\<close>; \<open>ShutilError\<close> is \<^verbatim>\<open>shutil.Error\<close>; \<open>HostError\<close> is whatever
  a function of the host platform raises.
\<close>

datatype pyexn =
    InvalidConfiguration
  | KeyError
  | TypeError
  | AttributeError
  | FileNotFoundError
  | FileExistsError
  | NotADirectoryError
  | IsADirectoryError
  | SameFileError
  | ShutilError
  | HostError string

datatype ConfigEntryState = NOT_LOADED | LOADED | SETUP_ERROR

text \<open>
  The host's \<^verbatim>\<open>ConfigEntry\<close>, with the attributes the integration reads or writes.
\<close>

datatype 'v centry = ConfigEntry
  (entry_id: string) (source: string)
  (data: "(string \<times> 'v) list") (options: "(string \<times> 'v) list")
  (state: ConfigEntryState) (reason: "string option")

text \<open>
  The values a configuration attribute can hold. A \<^verbatim>\<open>dict\<close> is an association list
  with distinct keys, in insertion order; its keys are strings (\<^verbatim>\<open>dict[str, Any]\<close>).
\<close>

datatype pyval =
    PNone
  | PBool bool
  | PInt int
  | PStr string
  | PEnum ConfigurationType
  | PDict "(string \<times> pyval) list"
  | PEntry "pyval centry"

fun truthy :: "pyval \<Rightarrow> bool" where
  "truthy PNone = False"
| "truthy (PBool b) = b"
| "truthy (PInt i) = (i \<noteq> 0)"
| "truthy (PStr s) = (s \<noteq> [])"
| "truthy (PEnum t) = True"
| "truthy (PDict d) = (d \<noteq> [])"
| "truthy (PEntry e) = True"

fun ConfigurationType_value :: "ConfigurationType \<Rightarrow> string" where
  "ConfigurationType_value YAML = ''yaml''"
| "ConfigurationType_value CONFIG_ENTRY = ''config_entry''"

text \<open>
  \<^verbatim>\<open>v == ConfigurationType.X\<close>: the enumeration mixes in \<^verbatim>\<open>str\<close>, so a member is equal
  to itself and to the plain string of its value.
\<close>

definition eq_ConfigurationType :: "pyval \<Rightarrow> ConfigurationType \<Rightarrow> bool" where
  "eq_ConfigurationType v t = (v = PEnum t \<or> v = PStr (ConfigurationType_value t))"

section \<open>const.py\<close>

definition DOMAIN :: string where
  "DOMAIN = ''minimalist_ui''"

definition NAME :: string where
  "NAME = ''Minimalist UI''"

definition LANGUAGES :: "(string \<times> string) list" where
  "LANGUAGES = [(''English (GB)'', ''en'')]"

definition DEFAULT_LANGUAGE :: string where
  "DEFAULT_LANGUAGE = ''English (GB)''"

definition DEFAULT_SIDEPANEL_ENABLED :: bool where
  "DEFAULT_SIDEPANEL_ENABLED = True"

definition DEFAULT_SIDEPANEL_TITLE :: string where
  "DEFAULT_SIDEPANEL_TITLE = NAME"

definition DEFAULT_SIDEPANEL_ICON :: string where
  "DEFAULT_SIDEPANEL_ICON = ''mdi:monitor-dashboard''"

definition DEFAULT_THEME :: string where
  "DEFAULT_THEME = ''minimalist-desktop''"

definition DEFAULT_THEME_PATH :: string where
  "DEFAULT_THEME_PATH = ''themes/''"

definition DEFAULT_INCLUDE_OTHER_CARDS :: bool where
  "DEFAULT_INCLUDE_OTHER_CARDS = False"

definition SOURCE_IMPORT :: string where
  "SOURCE_IMPORT = ''import''"

section \<open>base.py: MuiSystem and MuiConfiguration\<close>

record MuiSystem =
  disabled_reason :: "muiDisabledReason option"
  running :: bool

definition MuiSystem_init :: MuiSystem where
  "MuiSystem_init = \<lparr>disabled_reason = None, running = False\<rparr>"

definition disabled :: "MuiSystem \<Rightarrow> bool" where
  "disabled s = (disabled_reason s \<noteq> None)"

text \<open>
  A \<^verbatim>\<open>MuiConfiguration\<close> object is its instance dictionary: \<^verbatim>\<open>update_from_dict\<close> sets
  attributes of any name, so the record is the association list of attribute names
  and values (what \<^verbatim>\<open>to_dict\<close> returns). \<open>MuiConfiguration_init\<close> is the state after the
  dataclass constructor with no arguments.
\<close>

type_synonym MuiConfiguration = "(string \<times> pyval) list"

definition MuiConfiguration_init :: MuiConfiguration where
  "MuiConfiguration_init =
    [(''config'', PDict []),
     (''config_entry'', PNone),
     (''config_type'', PNone),
     (''sidepanel_enabled'', PBool DEFAULT_SIDEPANEL_ENABLED),
     (''sidepanel_icon'', PStr DEFAULT_SIDEPANEL_ICON),
     (''sidepanel_title'', PStr DEFAULT_SIDEPANEL_TITLE),
     (''adaptive_ui_enabled'', PBool DEFAULT_SIDEPANEL_ENABLED),
     (''adaptive_ui_icon'', PStr DEFAULT_SIDEPANEL_ICON),
     (''adaptive_ui_title'', PStr DEFAULT_SIDEPANEL_TITLE),
     (''theme_path'', PStr DEFAULT_THEME_PATH),
     (''theme'', PStr DEFAULT_THEME),
     (''plugin_path'', PStr ''www/community/''),
     (''include_other_cards'', PBool DEFAULT_INCLUDE_OTHER_CARDS),
     (''language'', PStr DEFAULT_LANGUAGE),
     (''token'', PNone)]"

text \<open>
  Reading an attribute: the instance dictionary first, then the class attribute that
  the dataclass keeps for a field with a plain default.
\<close>

definition class_default :: "string \<Rightarrow> pyval option" where
  "class_default k = (if k = ''config'' then None else map_of MuiConfiguration_init k)"

definition getattr :: "MuiConfiguration \<Rightarrow> string \<Rightarrow> pyval option" where
  "getattr cfg k = (case map_of cfg k of Some v \<Rightarrow> Some v | None \<Rightarrow> class_default k)"

text \<open>
  \<^verbatim>\<open>self.configuration.<field>\<close> for a declared field with a class default: the lookup
  cannot fail, so the value is returned as it is.
\<close>

definition attr :: "MuiConfiguration \<Rightarrow> string \<Rightarrow> pyval" where
  "attr cfg k = (case getattr cfg k of Some v \<Rightarrow> v | None \<Rightarrow> PNone)"

definition setattr :: "string \<Rightarrow> pyval \<Rightarrow> MuiConfiguration \<Rightarrow> MuiConfiguration" where
  "setattr k v cfg = AList.update k v cfg"

text \<open>
  \<^verbatim>\<open>update_from_dict\<close>: the exception leaves the object as it was; otherwise every key
  of the dict is set, in the dict's order.
\<close>

fun update_from_dict :: "pyval \<Rightarrow> MuiConfiguration \<Rightarrow> pyexn option \<times> MuiConfiguration" where
  "update_from_dict (PDict d) cfg = (None, fold (\<lambda>(key, v). setattr key v) d cfg)"
| "update_from_dict _ cfg = (Some InvalidConfiguration, cfg)"


section \<open>The file system: os and shutil\<close>

text \<open>
  A path is the list of its components from the root. The file system maps the paths
  that exist to a file with its contents or to a directory; there are no symbolic
  links, and an operation fails only for the state of the tree (a missing source, a
  file where a directory is needed), never for permissions or the device.
\<close>

type_synonym path = "string list"

datatype node = File string | Dir

type_synonym filesystem = "(path, node) fmap"

definition path_exists :: "filesystem \<Rightarrow> path \<Rightarrow> bool" where
  "path_exists fs p = (fmlookup fs p \<noteq> None)"

definition isdir :: "filesystem \<Rightarrow> path \<Rightarrow> bool" where
  "isdir fs p = (fmlookup fs p = Some Dir)"

definition isfile :: "filesystem \<Rightarrow> path \<Rightarrow> bool" where
  "isfile fs p = (case fmlookup fs p of Some (File c) \<Rightarrow> True | _ \<Rightarrow> False)"

definition basename :: "path \<Rightarrow> path" where
  "basename p = (if p = [] then [] else [last p])"

definition dirname :: "path \<Rightarrow> path" where
  "dirname p = butlast p"

text \<open>
  \<^verbatim>\<open>shutil.rmtree(p, ignore_errors=True)\<close>: a directory goes with everything below it;
  on anything else the error is ignored and nothing is removed.
\<close>

definition rmtree :: "path \<Rightarrow> filesystem \<Rightarrow> filesystem" where
  "rmtree p fs = (if isdir fs p then fmfilter (\<lambda>q. \<not> prefix p q) fs else fs)"

text \<open>
  \<^verbatim>\<open>os.makedirs(p, exist_ok=True)\<close>: every missing directory on the way to \<open>p\<close> is
  created; a file at \<open>p\<close> or on the way raises.
\<close>

definition makedirs :: "path \<Rightarrow> filesystem \<Rightarrow> pyexn option \<times> filesystem" where
  "makedirs p fs =
    (if isfile fs p then (Some FileExistsError, fs)
     else if list_ex (isfile fs) (prefixes p) then (Some NotADirectoryError, fs)
     else (None, fs ++\<^sub>f fmap_of_list (map (\<lambda>q. (q, Dir)) (prefixes p))))"

text \<open>
  \<^verbatim>\<open>shutil.copy2(src, dst)\<close>: a destination that is a directory stands for the file of
  the source's name inside it; the source must be a file and the directory of the
  target must exist.
\<close>

definition copy2 :: "path \<Rightarrow> path \<Rightarrow> filesystem \<Rightarrow> pyexn option \<times> filesystem" where
  "copy2 src dst fs =
    (let target = (if isdir fs dst then dst @ basename src else dst) in
     if path_exists fs src \<and> target = src then (Some SameFileError, fs)
     else
       (case fmlookup fs src of
          None \<Rightarrow> (Some FileNotFoundError, fs)
        | Some Dir \<Rightarrow> (Some IsADirectoryError, fs)
        | Some (File c) \<Rightarrow>
            if isdir fs target then (Some IsADirectoryError, fs)
            else if isfile fs (dirname target) then (Some NotADirectoryError, fs)
            else if \<not> isdir fs (dirname target) then (Some FileNotFoundError, fs)
            else (None, fmupd target (File c) fs)))"

text \<open>
  \<^verbatim>\<open>shutil.copytree(src, dst, dirs_exist_ok=True)\<close>. An entry at the relative path
  \<open>r\<close> below \<open>src\<close> is visited when every directory between \<open>src\<close> and the entry was
  entered: it is a directory of the source, and the destination has no file in its
  place. For a visited entry, a directory is created at \<open>dst @ r\<close> unless a file is
  there (an error), and a file is copied with \<open>copy2\<close>, so into \<open>dst @ r\<close> when that is a
  directory. The errors of the entries are collected and raised as one
  \<^verbatim>\<open>shutil.Error\<close> after everything else was copied. The source tree is read as it is
  before the copy, which is what \<^verbatim>\<open>shutil\<close> does when \<open>dst\<close> is not inside \<open>src\<close>.
\<close>

definition inner_prefixes :: "path \<Rightarrow> path list" where
  "inner_prefixes r = filter (\<lambda>r'. r' \<noteq> [] \<and> r' \<noteq> r) (prefixes r)"

definition visited :: "filesystem \<Rightarrow> path \<Rightarrow> path \<Rightarrow> path \<Rightarrow> bool" where
  "visited fs src dst r =
    list_all (\<lambda>r'. isdir fs (src @ r') \<and> \<not> isfile fs (dst @ r')) (inner_prefixes r)"

definition copy_entry ::
  "filesystem \<Rightarrow> path \<Rightarrow> path \<Rightarrow> path \<times> node \<Rightarrow> (path \<times> node) list \<times> bool" where
  "copy_entry fs src dst e =
    (let r = drop (length src) (fst e) in
     if r = [] \<or> \<not> visited fs src dst r then ([], False)
     else
       (case snd e of
          Dir \<Rightarrow>
            if isfile fs (dst @ r) then ([], True) else ([(dst @ r, Dir)], False)
        | File c \<Rightarrow>
            if isdir fs (dst @ r) then
              (if isdir fs (dst @ r @ [last r]) then ([], True)
               else ([(dst @ r @ [last r], File c)], False))
            else ([(dst @ r, File c)], False)))"

definition copytree :: "path \<Rightarrow> path \<Rightarrow> filesystem \<Rightarrow> pyexn option \<times> filesystem" where
  "copytree src dst fs =
    (case fmlookup fs src of
       None \<Rightarrow> (Some FileNotFoundError, fs)
     | Some (File c) \<Rightarrow> (Some NotADirectoryError, fs)
     | Some Dir \<Rightarrow>
         (case makedirs dst fs of
            (Some e, fs1) \<Rightarrow> (Some e, fs1)
          | (None, fs1) \<Rightarrow>
              (let results = map (copy_entry fs1 src dst)
                               (sorted_list_of_fmap (fmfilter (prefix src) fs1)) in
               (if list_ex snd results then Some ShutilError else None,
                fs1 ++\<^sub>f fmap_of_list (concat (map fst results))))))"

text \<open>
  \<^verbatim>\<open>os.path.join(base, s)\<close> followed by the lexical resolution of the result: the
  string is cut at the slashes, empty components and \<^verbatim>\<open>.\<close> are dropped, \<^verbatim>\<open>..\<close> goes
  one directory up, and a string that starts with a slash replaces the base.
\<close>

fun split_on :: "char \<Rightarrow> string \<Rightarrow> string \<Rightarrow> string list" where
  "split_on c acc [] = [acc]"
| "split_on c acc (x # xs) =
    (if x = c then acc # split_on c [] xs else split_on c (acc @ [x]) xs)"

fun walk :: "path \<Rightarrow> string list \<Rightarrow> path" where
  "walk p [] = p"
| "walk p (c # cs) =
    (if c = [] \<or> c = ''.'' then walk p cs
     else if c = ''..'' then walk (butlast p) cs
     else walk (p @ [c]) cs)"

definition os_path_join :: "path \<Rightarrow> string \<Rightarrow> path" where
  "os_path_join base s =
    (if s \<noteq> [] \<and> hd s = CHR ''/'' then walk [] (split_on CHR ''/'' [] s)
     else walk base (split_on CHR ''/'' [] s))"

section \<open>The host platform and the MuiBase object\<close>

text \<open>
  The functions of the host that the integration calls. What they do inside the host
  is not part of the repository: each has the effect on the host's registries that
  is written at its call, unless the host makes it raise (\<open>faults\<close>).
\<close>

datatype hostcall =
    AddExtraJsUrl
  | RegisterStaticPath
  | LovelaceYAMLInit
  | RegisterPanel
  | RemovePanel
  | BusFire
  | ServiceRegister
  | AddJob
  | CreateTask
  | AddUpdateListener

record dashboard_config =
  mode :: string
  icon :: pyval
  title :: pyval
  filename :: string
  show_in_sidebar :: bool
  require_admin :: bool

datatype loglevel = DEBUG | INFO | ERROR

datatype logrec = LogMsg loglevel string | LogExc pyexn

record Integration =
  file_path :: path
  integration_version :: "string option"

text \<open>
  \<open>config_dir\<close> is the directory of \<^verbatim>\<open>hass.config.path\<close>; \<open>lovelace\<close> is
  \<^verbatim>\<open>hass.data["lovelace"]["dashboards"]\<close>, \<open>None\<close> when \<^verbatim>\<open>hass.data\<close> has no such key;
  \<open>domain_data\<close> says that \<^verbatim>\<open>hass.data[DOMAIN]\<close> holds the MuiBase object;
  \<open>get_integration\<close> is the result of \<^verbatim>\<open>async_get_integration(hass, DOMAIN)\<close>;
  \<open>py_str\<close> is the interpreter's \<^verbatim>\<open>str\<close> for a value that is not a string.
\<close>

record HomeAssistant =
  config_dir :: path
  files :: filesystem
  bus :: "string list"
  services :: "(string \<times> string) list"
  lovelace :: "(string \<times> dashboard_config) list option"
  panels :: "(string \<times> dashboard_config) list"
  extra_js_url :: "string list"
  static_paths :: "(string \<times> path) list"
  jobs :: "string list"
  update_listeners :: "string list"
  domain_data :: bool
  logged :: "logrec list"
  get_integration :: "pyexn + Integration"
  faults :: "hostcall \<Rightarrow> pyexn option"
  py_str :: "pyval \<Rightarrow> string"

text \<open>
  \<open>configuration\<close> and \<open>system\<close> are attributes of the class MuiBase: every instance
  shares them, so they outlive the instance. \<open>integration\<close>, \<open>hass\<close>, \<open>version\<close> and
  \<open>session\<close> are \<open>None\<close> in a new instance and set during initialization; of \<open>hass\<close>
  and \<open>session\<close> the model keeps whether they are set.
\<close>

record MuiBase =
  integration :: "Integration option"
  configuration :: MuiConfiguration
  hass :: bool
  system :: MuiSystem
  version :: "string option"
  session :: bool

record world =
  mui :: MuiBase
  host :: HomeAssistant

definition MuiBase_new :: "MuiBase \<Rightarrow> MuiBase" where
  "MuiBase_new old =
    old\<lparr>integration := None, hass := False, version := None, session := False\<rparr>"

text \<open>
  A statement is an action on the world: it returns the exception it raised, if any,
  with the world as it is then. A block runs its statements until one raises.
\<close>

type_synonym action = "world \<Rightarrow> pyexn option \<times> world"

fun run_all :: "action list \<Rightarrow> action"
  and resume :: "action list \<Rightarrow> pyexn option \<times> world \<Rightarrow> pyexn option \<times> world" where
  "run_all [] w = (None, w)"
| "run_all (a # as) w = resume as (a w)"
| "resume as (Some e, w) = (Some e, w)"
| "resume as (None, w) = run_all as w"

definition on_files :: "(filesystem \<Rightarrow> pyexn option \<times> filesystem) \<Rightarrow> action" where
  "on_files f w =
    (case f (files (host w)) of (r, fs') \<Rightarrow> (r, w\<lparr>host := (host w)\<lparr>files := fs'\<rparr>\<rparr>))"

definition host_call :: "hostcall \<Rightarrow> (HomeAssistant \<Rightarrow> HomeAssistant) \<Rightarrow> action" where
  "host_call c f w =
    (case faults (host w) c of
       Some e \<Rightarrow> (Some e, w)
     | None \<Rightarrow> (None, w\<lparr>host := f (host w)\<rparr>))"

text \<open>\<^verbatim>\<open>self.hass.<...>\<close> raises AttributeError while \<^verbatim>\<open>self.hass\<close> is None.\<close>

definition need_hass :: action where
  "need_hass w = (if hass (mui w) then (None, w) else (Some AttributeError, w))"

definition log_msg :: "loglevel \<Rightarrow> string \<Rightarrow> world \<Rightarrow> world" where
  "log_msg l s w = w\<lparr>host := (host w)\<lparr>logged := logged (host w) @ [LogMsg l s]\<rparr>\<rparr>"

definition log_exc :: "pyexn \<Rightarrow> world \<Rightarrow> world" where
  "log_exc e w = w\<lparr>host := (host w)\<lparr>logged := logged (host w) @ [LogExc e]\<rparr>\<rparr>"

definition set_disabled_reason :: "muiDisabledReason option \<Rightarrow> world \<Rightarrow> world" where
  "set_disabled_reason r w =
    w\<lparr>mui := (mui w)\<lparr>system := (system (mui w))\<lparr>disabled_reason := r\<rparr>\<rparr>\<rparr>"

definition set_configuration :: "MuiConfiguration \<Rightarrow> world \<Rightarrow> world" where
  "set_configuration c w = w\<lparr>mui := (mui w)\<lparr>configuration := c\<rparr>\<rparr>"

definition conf :: "world \<Rightarrow> string \<Rightarrow> pyval" where
  "conf w k = attr (configuration (mui w)) k"

definition config_path :: "world \<Rightarrow> string \<Rightarrow> path" where
  "config_path w s = os_path_join (config_dir (host w)) s"

text \<open>An f-string field: a string as it is, any other value through \<^verbatim>\<open>str\<close>.\<close>

definition fstring :: "world \<Rightarrow> pyval \<Rightarrow> string" where
  "fstring w v = (case v of PStr s \<Rightarrow> s | _ \<Rightarrow> py_str (host w) v)"

definition templates_dir :: "Integration \<Rightarrow> path" where
  "templates_dir i = file_path i @ [''__ui_minimalist__'', ''mui_templates'']"

section \<open>base.py: MuiBase.disable_mui and MuiBase.enable_mui\<close>

text \<open>
  For INVALID_TOKEN the config entry held by the configuration is marked and a
  reauthentication job is handed to the host; the attribute assignments raise
  AttributeError when \<^verbatim>\<open>config_entry\<close> is not a config entry.
\<close>

definition disable_mui :: "muiDisabledReason \<Rightarrow> action" where
  "disable_mui r w =
    (if disabled_reason (system (mui w)) = Some r then (None, w)
     else
       (let w1 = set_disabled_reason (Some r) w in
        if r = INVALID_TOKEN then
          (case conf w1 ''config_entry'' of
             PEntry e \<Rightarrow>
               run_all
                 [need_hass,
                  host_call AddJob (\<lambda>h. h\<lparr>jobs := jobs h @ [''async_start_reauth'']\<rparr>)]
                 (set_configuration
                    (setattr ''config_entry''
                       (PEntry (ConfigEntry (entry_id e) (source e) (data e) (options e)
                          SETUP_ERROR (Some ''Authentiation Failed'')))
                       (configuration (mui w1)))
                    w1)
           | _ \<Rightarrow> (Some AttributeError, w1))
        else (None, w1)))"

definition enable_mui :: "world \<Rightarrow> world" where
  "enable_mui w =
    (if disabled_reason (system (mui w)) \<noteq> None
     then log_msg INFO ''MUI is enabled'' (set_disabled_reason None w)
     else w)"

text \<open>
  The handler shared by the three setup steps:
  \<^verbatim>\<open>except Exception as exception: self.log.error(exception);
  self.disable_mui(muiDisabledReason.LOAD_MUI); return False\<close>.
  The result of a step is the boolean it returns, or the exception that leaves it.
\<close>

definition try_step :: "action \<Rightarrow> world \<Rightarrow> (pyexn + bool) \<times> world" where
  "try_step body w =
    (case body w of
       (None, w1) \<Rightarrow> (Inr True, w1)
     | (Some e, w1) \<Rightarrow>
         (case disable_mui LOAD_MUI (log_exc e w1) of
            (None, w2) \<Rightarrow> (Inr False, w2)
          | (Some e', w2) \<Rightarrow> (Inl e', w2)))"

section \<open>base.py: MuiBase.configure_plugins\<close>

definition dependency_resource_paths :: "string list" where
  "dependency_resource_paths =
    [''button-card'', ''light-entity-card'', ''lovelace-card-mod'',
     ''lovelace-auto-entities'', ''mini-graph-card'', ''mini-media-player'', ''my-cards'',
     ''simple-weather-card'', ''lovelace-layout-card'', ''lovelace-state-switch'',
     ''weather-radar-card'']"

definition dq :: string where
  "dq = [CHR 0x22]"

definition check_browser_mod :: action where
  "check_browser_mod w =
    (None,
     if \<not> path_exists (files (host w)) (config_path w ''custom_components/browser_mod'')
     then log_msg ERROR
            (''HACS Integration repo '' @ dq @ ''browser mod'' @ dq @ '' is not installed!'') w
     else w)"

text \<open>One round of the loop over the resource directories: it only logs.\<close>

definition check_dependency :: "string \<Rightarrow> world \<Rightarrow> world" where
  "check_dependency p w =
    (if \<not> truthy (conf w ''include_other_cards'') then
       (if \<not> path_exists (files (host w)) (config_path w (''www/community/'' @ p))
        then log_msg ERROR
               (''HACS Frontend repo '' @ dq @ p @ dq @
                '' is not installed, See Integration Configuration.'') w
        else w)
     else
       (if path_exists (files (host w)) (config_path w (''www/community/'' @ p))
        then log_msg ERROR
               (''HACS Frontend repo '' @ dq @ p @ dq @
                '' is already installed, Remove it or disable include custom cards'') w
        else w))"

definition check_dependencies :: action where
  "check_dependencies w = (None, fold check_dependency dependency_resource_paths w)"

definition add_extra_js_url :: "string \<Rightarrow> action" where
  "add_extra_js_url c =
    host_call AddExtraJsUrl
      (\<lambda>h. h\<lparr>extra_js_url := extra_js_url h @
         [''/minimalist_ui/ext_dependencies/'' @ c @ ''/'' @ c @ ''.js'']\<rparr>)"

definition add_extra_js_urls :: action where
  "add_extra_js_urls w =
    (if truthy (conf w ''include_other_cards'')
     then run_all (map add_extra_js_url dependency_resource_paths) w
     else (None, w))"

definition register_static_path :: action where
  "register_static_path w =
    (case integration (mui w) of
       None \<Rightarrow> (Some AttributeError, w)
     | Some i \<Rightarrow>
         host_call RegisterStaticPath
           (\<lambda>h. h\<lparr>static_paths := static_paths h @
              [(''/minimalist_ui/ext_dependencies'', file_path i @ [''ext_dependencies''])]\<rparr>)
           w)"

definition configure_plugins_body :: action where
  "configure_plugins_body =
    run_all
      [need_hass, check_browser_mod, check_dependencies, add_extra_js_urls,
       register_static_path]"

definition configure_plugins :: "world \<Rightarrow> (pyexn + bool) \<times> world" where
  "configure_plugins w =
    try_step configure_plugins_body (log_msg DEBUG ''Checking Dependencies.'' w)"

section \<open>base.py: MuiBase.configure_dashboard\<close>

definition dashboard_url :: string where
  "dashboard_url = ''minimalist-ui''"

definition the_dashboard_config :: "world \<Rightarrow> dashboard_config" where
  "the_dashboard_config w =
    \<lparr>mode = ''yaml'', icon = conf w ''sidepanel_icon'', title = conf w ''sidepanel_title'',
     filename = ''minimalist_ui/dashboard/ui.yaml'', show_in_sidebar = True,
     require_admin = False\<rparr>"

definition store_dashboard :: "dashboard_config \<Rightarrow> action" where
  "store_dashboard dc w =
    (case lovelace (host w) of
       None \<Rightarrow> (Some KeyError, w)
     | Some ds \<Rightarrow>
         (None, w\<lparr>host := (host w)\<lparr>lovelace := Some (AList.update dashboard_url dc ds)\<rparr>\<rparr>))"

definition register_panel :: "dashboard_config \<Rightarrow> action" where
  "register_panel dc =
    host_call RegisterPanel (\<lambda>h. h\<lparr>panels := AList.update dashboard_url dc (panels h)\<rparr>)"

definition remove_panel :: action where
  "remove_panel w =
    (case lovelace (host w) of
       None \<Rightarrow> (Some KeyError, w)
     | Some ds \<Rightarrow>
         if dashboard_url \<in> set (map fst ds) then
           host_call RemovePanel
             (\<lambda>h. h\<lparr>panels := AList.delete ''minimalist-ui'' (panels h)\<rparr>) w
         else (None, w))"

definition register_or_remove :: "dashboard_config \<Rightarrow> action" where
  "register_or_remove dc w =
    (if truthy (conf w ''sidepanel_enabled'') then
       run_all [host_call LovelaceYAMLInit (\<lambda>h. h), store_dashboard dc, register_panel dc] w
     else remove_panel w)"

definition configure_dashboard_body :: "dashboard_config \<Rightarrow> action" where
  "configure_dashboard_body dc = run_all [need_hass, register_or_remove dc]"

definition configure_dashboard :: "world \<Rightarrow> (pyexn + bool) \<times> world" where
  "configure_dashboard w = try_step (configure_dashboard_body (the_dashboard_config w)) w"

section \<open>base.py: MuiBase.configure_mui and MuiBase.reload_configuration\<close>

text \<open>
  \<^verbatim>\<open>LANGUAGES[v]\<close>: only a string (or a member of the string enumeration) can be a key
  of the table; a dict cannot be hashed.
\<close>

fun LANGUAGES_getitem :: "pyval \<Rightarrow> pyexn + string" where
  "LANGUAGES_getitem (PStr s) =
    (case map_of LANGUAGES s of None \<Rightarrow> Inl KeyError | Some l \<Rightarrow> Inr l)"
| "LANGUAGES_getitem (PEnum t) =
    (case map_of LANGUAGES (ConfigurationType_value t) of
       None \<Rightarrow> Inl KeyError | Some l \<Rightarrow> Inr l)"
| "LANGUAGES_getitem (PDict d) = Inl TypeError"
| "LANGUAGES_getitem _ = Inl KeyError"

text \<open>The directories and files of the installer, as the source writes them.\<close>

definition configs_dir :: "world \<Rightarrow> path" where
  "configs_dir w = config_path w (DOMAIN @ ''/configs'')"

definition addons_dir :: "world \<Rightarrow> path" where
  "addons_dir w = config_path w (DOMAIN @ ''/addons'')"

definition dashboard_dir :: "world \<Rightarrow> path" where
  "dashboard_dir w = config_path w (DOMAIN @ ''/dashboard'')"

definition custom_actions_dir :: "world \<Rightarrow> path" where
  "custom_actions_dir w = config_path w (DOMAIN @ ''/custom_actions'')"

definition ui_yaml :: "world \<Rightarrow> path" where
  "ui_yaml w = config_path w (DOMAIN @ ''/dashboard/ui.yaml'')"

definition custom_actions_yaml :: "world \<Rightarrow> path" where
  "custom_actions_yaml w = config_path w (DOMAIN @ ''/custom_actions/custom_actions.yaml'')"

definition theme_dir :: "world \<Rightarrow> path" where
  "theme_dir w = config_path w (fstring w (conf w ''theme_path'') @ ''/'')"

definition cleanup_configs :: action where
  "cleanup_configs w = on_files (\<lambda>fs. (None, rmtree (configs_dir w) fs)) w"

definition cleanup_addons :: action where
  "cleanup_addons w = on_files (\<lambda>fs. (None, rmtree (addons_dir w) fs)) w"

definition make_dashboard_dir :: action where
  "make_dashboard_dir w = on_files (makedirs (dashboard_dir w)) w"

definition make_custom_actions_dir :: action where
  "make_custom_actions_dir w = on_files (makedirs (custom_actions_dir w)) w"

definition copy_default_language :: "Integration \<Rightarrow> action" where
  "copy_default_language i =
    on_files (copy2 (file_path i @ [''dashboard'', ''translations'', ''default.yaml''])
                    (templates_dir i @ [''default.yaml'']))"

definition copy_dashboard :: "Integration \<Rightarrow> action" where
  "copy_dashboard i w =
    (if truthy (conf w ''sidepanel_enabled'') then
       (if \<not> path_exists (files (host w)) (ui_yaml w)
        then on_files (copy2 (file_path i @ [''dashboard'', ''ui.yaml'']) (ui_yaml w)) w
        else (None, w))
     else (None, w))"

definition copy_custom_actions :: "Integration \<Rightarrow> action" where
  "copy_custom_actions i w =
    (if \<not> path_exists (files (host w)) (custom_actions_yaml w)
     then on_files (copy2 (file_path i @ [''dashboard'', ''custom_actions.yaml''])
                          (custom_actions_yaml w)) w
     else (None, w))"

definition copy_language :: "Integration \<Rightarrow> string \<Rightarrow> action" where
  "copy_language i language =
    on_files (copy2 (file_path i @ [''dashboard'', ''translations'', language @ ''.yaml''])
                    (templates_dir i @ [''language.yaml'']))"

definition copy_templates :: "Integration \<Rightarrow> action" where
  "copy_templates i =
    on_files (copytree (file_path i @ [''dashboard'', ''mui_templates'']) (templates_dir i))"

definition copy_user_actions :: "Integration \<Rightarrow> action" where
  "copy_user_actions i w =
    on_files (copytree (custom_actions_dir w) (templates_dir i @ [''custom_actions''])) w"

definition copy_themes :: "Integration \<Rightarrow> action" where
  "copy_themes i w =
    on_files (copytree (file_path i @ [''dashboard'', ''themefiles'']) (theme_dir w)) w"

text \<open>
  From \<^verbatim>\<open>language = LANGUAGES[self.configuration.language]\<close> to the end of the block.
\<close>

definition copy_files :: "Integration \<Rightarrow> action" where
  "copy_files i w =
    (case LANGUAGES_getitem (conf w ''language'') of
       Inl e \<Rightarrow> (Some e, w)
     | Inr language \<Rightarrow>
         run_all
           [copy_default_language i, copy_dashboard i, copy_custom_actions i,
            copy_language i language, copy_templates i, copy_user_actions i, copy_themes i]
           w)"

text \<open>
  The block under \<^verbatim>\<open>if os.path.exists(self.hass.config.path(f"{DOMAIN}/dashboard"))\<close>;
  \<^verbatim>\<open>self.templates_dir\<close> raises AttributeError while \<^verbatim>\<open>self.integration\<close> is None.
\<close>

definition copy_assets :: action where
  "copy_assets w =
    (if path_exists (files (host w)) (dashboard_dir w) then
       (case integration (mui w) of
          None \<Rightarrow> (Some AttributeError, w)
        | Some i \<Rightarrow> run_all [on_files (makedirs (templates_dir i)), copy_files i] w)
     else (None, w))"

definition fire_reload :: action where
  "fire_reload = host_call BusFire (\<lambda>h. h\<lparr>bus := bus h @ [''minimalist_ui_reload'']\<rparr>)"

definition register_reload_service :: action where
  "register_reload_service =
    host_call ServiceRegister
      (\<lambda>h. h\<lparr>services := List.insert (DOMAIN, ''reload'') (services h)\<rparr>)"

definition configure_mui_body :: action where
  "configure_mui_body =
    run_all
      [need_hass, cleanup_configs, cleanup_addons, make_dashboard_dir,
       make_custom_actions_dir, copy_assets, fire_reload, register_reload_service]"

definition configure_mui :: "world \<Rightarrow> (pyexn + bool) \<times> world" where
  "configure_mui w = try_step configure_mui_body (log_msg INFO ''Setup MUI Configuration'' w)"

text \<open>
  The world after the two \<^verbatim>\<open>shutil.rmtree\<close> calls that open \<^verbatim>\<open>configure_mui\<close>.
\<close>

definition cleaned :: "world \<Rightarrow> world" where
  "cleaned w =
    w\<lparr>host := (host w)
       \<lparr>files := rmtree (addons_dir w) (rmtree (configs_dir w) (files (host w)))\<rparr>\<rparr>"

text \<open>
  The file operations of \<^verbatim>\<open>configure_mui\<close> in the order of the source, as functions of
  the file system alone: the paths, the language and the side panel flag are read
  from the world the step starts in. A block of file operations stops at the first
  that raises, as a block of statements does.
\<close>

type_synonym fsop = "filesystem \<Rightarrow> pyexn option \<times> filesystem"

fun fs_run :: "fsop list \<Rightarrow> fsop"
  and fs_resume :: "fsop list \<Rightarrow> pyexn option \<times> filesystem \<Rightarrow> pyexn option \<times> filesystem" where
  "fs_run [] fs = (None, fs)"
| "fs_run (g # gs) fs = fs_resume gs (g fs)"
| "fs_resume gs (Some e, fs) = (Some e, fs)"
| "fs_resume gs (None, fs) = fs_run gs fs"

definition fs_raise :: "pyexn \<Rightarrow> fsop" where
  "fs_raise e fs = (Some e, fs)"

definition rmtree_op :: "path \<Rightarrow> fsop" where
  "rmtree_op p fs = (None, rmtree p fs)"

definition copy2_if_absent :: "bool \<Rightarrow> path \<Rightarrow> path \<Rightarrow> fsop" where
  "copy2_if_absent enabled src dst fs =
    (if enabled \<and> \<not> path_exists fs dst then copy2 src dst fs else (None, fs))"

definition guarded :: "path \<Rightarrow> fsop \<Rightarrow> fsop" where
  "guarded p g fs = (if path_exists fs p then g fs else (None, fs))"

definition copy_ops :: "world \<Rightarrow> Integration \<Rightarrow> string \<Rightarrow> fsop list" where
  "copy_ops w i language =
    [copy2 (file_path i @ [''dashboard'', ''translations'', ''default.yaml''])
           (templates_dir i @ [''default.yaml'']),
     copy2_if_absent (truthy (conf w ''sidepanel_enabled''))
           (file_path i @ [''dashboard'', ''ui.yaml'']) (ui_yaml w),
     copy2_if_absent True
           (file_path i @ [''dashboard'', ''custom_actions.yaml'']) (custom_actions_yaml w),
     copy2 (file_path i @ [''dashboard'', ''translations'', language @ ''.yaml''])
           (templates_dir i @ [''language.yaml'']),
     copytree (file_path i @ [''dashboard'', ''mui_templates'']) (templates_dir i),
     copytree (custom_actions_dir w) (templates_dir i @ [''custom_actions'']),
     copytree (file_path i @ [''dashboard'', ''themefiles'']) (theme_dir w)]"

definition language_ops :: "world \<Rightarrow> Integration \<Rightarrow> fsop" where
  "language_ops w i =
    (case LANGUAGES_getitem (conf w ''language'') of
       Inl e \<Rightarrow> fs_raise e
     | Inr language \<Rightarrow> fs_run (copy_ops w i language))"

definition asset_ops :: "world \<Rightarrow> fsop" where
  "asset_ops w =
    (case integration (mui w) of
       None \<Rightarrow> fs_raise AttributeError
     | Some i \<Rightarrow> fs_run [makedirs (templates_dir i), language_ops w i])"

definition install_ops :: "world \<Rightarrow> fsop list" where
  "install_ops w =
    [rmtree_op (configs_dir w), rmtree_op (addons_dir w), makedirs (dashboard_dir w),
     makedirs (custom_actions_dir w), guarded (dashboard_dir w) (asset_ops w)]"

text \<open>
  \<^verbatim>\<open>reload_configuration\<close> has no handler: what it raises leaves it.
\<close>

definition reload_user_actions :: action where
  "reload_user_actions w =
    (if path_exists (files (host w)) (custom_actions_dir w) then
       (case integration (mui w) of
          None \<Rightarrow> (Some AttributeError, w)
        | Some i \<Rightarrow> copy_user_actions i w)
     else (None, w))"

definition reload_configuration :: action where
  "reload_configuration = run_all [need_hass, reload_user_actions, fire_reload]"

text \<open>
  The exception that the body under the \<^verbatim>\<open>try\<close> of a setup step raises, if any, when
  the step is run in the world \<open>w\<close>.
\<close>

definition configure_mui_exception :: "world \<Rightarrow> pyexn option" where
  "configure_mui_exception w =
    fst (configure_mui_body (log_msg INFO ''Setup MUI Configuration'' w))"

definition configure_plugins_exception :: "world \<Rightarrow> pyexn option" where
  "configure_plugins_exception w =
    fst (configure_plugins_body (log_msg DEBUG ''Checking Dependencies.'' w))"

definition configure_dashboard_exception :: "world \<Rightarrow> pyexn option" where
  "configure_dashboard_exception w =
    fst (configure_dashboard_body (the_dashboard_config w) w)"

section \<open>__init__.py\<close>

text \<open>
  \<^verbatim>\<open>async_startup\<close>: the three steps joined by \<^verbatim>\<open>or\<close>, so a step runs only when the
  ones before it returned true.
\<close>

definition async_startup :: "world \<Rightarrow> (pyexn + bool) \<times> world" where
  "async_startup w =
    (case configure_mui w of
       (Inl e, w1) \<Rightarrow> (Inl e, w1)
     | (Inr False, w1) \<Rightarrow> (Inr False, w1)
     | (Inr True, w1) \<Rightarrow>
         (case configure_plugins w1 of
            (Inl e, w2) \<Rightarrow> (Inl e, w2)
          | (Inr False, w2) \<Rightarrow> (Inr False, w2)
          | (Inr True, w2) \<Rightarrow>
              (case configure_dashboard w2 of
                 (Inl e, w3) \<Rightarrow> (Inl e, w3)
               | (Inr False, w3) \<Rightarrow> (Inr False, w3)
               | (Inr True, w3) \<Rightarrow>
                   (let w4 = enable_mui w3 in
                    (Inr (\<not> disabled (system (mui w4))), w4)))))"

text \<open>The worlds between the steps of \<^verbatim>\<open>async_startup\<close>.\<close>

definition after_mui :: "world \<Rightarrow> world" where
  "after_mui w = snd (configure_mui w)"

definition after_plugins :: "world \<Rightarrow> world" where
  "after_plugins w = snd (configure_plugins (after_mui w))"

definition after_dashboard :: "world \<Rightarrow> world" where
  "after_dashboard w = snd (configure_dashboard (after_plugins w))"

text \<open>
  The dict displays of \<^verbatim>\<open>async_initialize_integration\<close>: a later key replaces the
  value of an equal earlier one.
\<close>

definition dict_items :: "(string \<times> pyval) list \<Rightarrow> (string \<times> pyval) list \<Rightarrow> (string \<times> pyval) list" where
  "dict_items new d = fold (\<lambda>(k, v). AList.update k v) new d"

definition yaml_dict :: "(string \<times> pyval) list \<Rightarrow> pyval" where
  "yaml_dict sect =
    PDict (dict_items [(''config'', PDict sect)]
            (dict_items sect [(''config_type'', PEnum YAML)]))"

definition entry_dict :: "pyval centry \<Rightarrow> pyval" where
  "entry_dict e =
    PDict (dict_items (options e)
            (dict_items (data e)
               [(''config_entry'', PEntry e), (''config_type'', PEnum CONFIG_ENTRY)]))"

definition update_configuration :: "pyval \<Rightarrow> action" where
  "update_configuration d w =
    (case update_from_dict d (configuration (mui w)) of
       (r, c) \<Rightarrow> (r, set_configuration c w))"

text \<open>
  The part of \<^verbatim>\<open>async_initialize_integration\<close> from \<^verbatim>\<open>async_get_integration\<close> on.
\<close>

definition attach :: "Integration \<Rightarrow> world \<Rightarrow> world" where
  "attach i w =
    w\<lparr>mui := (mui w)
       \<lparr>integration := Some i, version := integration_version i,
        session := True, hass := True,
        system := (system (mui w))\<lparr>running := True\<rparr>\<rparr>\<rparr>"

definition start_integration :: "world \<Rightarrow> (pyexn + bool) \<times> world" where
  "start_integration w =
    (case get_integration (host w) of
       Inl e \<Rightarrow> (Inl e, w)
     | Inr i \<Rightarrow>
         (case async_startup (attach i w) of
            (Inl e, w2) \<Rightarrow> (Inl e, w2)
          | (Inr False, w2) \<Rightarrow> (Inr False, w2)
          | (Inr True, w2) \<Rightarrow> (Inr True, enable_mui w2)))"

definition setup_from_entry :: "pyval centry option \<Rightarrow> world \<Rightarrow> (pyexn + bool) \<times> world" where
  "setup_from_entry config_entry w =
    (case config_entry of
       None \<Rightarrow> start_integration w
     | Some e \<Rightarrow>
         if source e = SOURCE_IMPORT then
           (case host_call CreateTask
                   (\<lambda>h. h\<lparr>jobs := jobs h @ [''config_entries.async_remove'']\<rparr>) w of
              (Some x, w1) \<Rightarrow> (Inl x, w1)
            | (None, w1) \<Rightarrow> (Inr False, w1))
         else
           (case update_configuration (entry_dict e) w of
              (Some x, w1) \<Rightarrow> (Inl x, w1)
            | (None, w1) \<Rightarrow> start_integration w1))"

definition async_initialize_integration ::
  "pyval centry option \<Rightarrow> (string \<times> pyval) list option \<Rightarrow> world \<Rightarrow> (pyexn + bool) \<times> world" where
  "async_initialize_integration config_entry config w =
    (let w0 = enable_mui (w\<lparr>mui := MuiBase_new (mui w),
                            host := (host w)\<lparr>domain_data := True\<rparr>\<rparr>)
     in case config of
          None \<Rightarrow> setup_from_entry config_entry w0
        | Some c \<Rightarrow>
            if DOMAIN \<notin> set (map fst c) then (Inr True, w0)
            else if eq_ConfigurationType (conf w0 ''config_type'') CONFIG_ENTRY
            then (Inr True, w0)
            else
              (case map_of c DOMAIN of
                 Some (PDict sect) \<Rightarrow>
                   (case update_configuration (yaml_dict sect) w0 of
                      (Some x, w1) \<Rightarrow> (Inl x, w1)
                    | (None, w1) \<Rightarrow> setup_from_entry config_entry w1)
               | _ \<Rightarrow> (Inl TypeError, w0)))"

definition async_setup :: "(string \<times> pyval) list \<Rightarrow> world \<Rightarrow> (pyexn + bool) \<times> world" where
  "async_setup config w = async_initialize_integration None (Some config) w"



section \<open>A concrete installation\<close>

text \<open>
  A host whose configuration directory is \<^verbatim>\<open>/config\<close>, with the integration installed
  under \<^verbatim>\<open>/config/custom_components/minimalist_ui\<close> and its bundled files in place.
  The theorems below are instantiated at this installation and at variations of it.
\<close>

definition example_integration :: Integration where
  "example_integration =
    \<lparr>file_path = [''config'', ''custom_components'', ''minimalist_ui''],
     integration_version = Some ''0.0.1''\<rparr>"

definition example_files :: filesystem where
  "example_files = fmap_of_list
    [([], Dir),
     ([''config''], Dir),
     ([''config'', ''custom_components''], Dir),
     ([''config'', ''custom_components'', ''minimalist_ui''], Dir),
     ([''config'', ''custom_components'', ''minimalist_ui'', ''dashboard''], Dir),
     ([''config'', ''custom_components'', ''minimalist_ui'', ''dashboard'', ''translations''], Dir),
     ([''config'', ''custom_components'', ''minimalist_ui'', ''dashboard'', ''translations'',
       ''default.yaml''], File ''default strings''),
     ([''config'', ''custom_components'', ''minimalist_ui'', ''dashboard'', ''translations'',
       ''en.yaml''], File ''english strings''),
     ([''config'', ''custom_components'', ''minimalist_ui'', ''dashboard'', ''ui.yaml''],
       File ''bundled dashboard''),
     ([''config'', ''custom_components'', ''minimalist_ui'', ''dashboard'', ''custom_actions.yaml''],
       File ''bundled actions''),
     ([''config'', ''custom_components'', ''minimalist_ui'', ''dashboard'', ''mui_templates''], Dir),
     ([''config'', ''custom_components'', ''minimalist_ui'', ''dashboard'', ''mui_templates'',
       ''card.yaml''], File ''card template''),
     ([''config'', ''custom_components'', ''minimalist_ui'', ''dashboard'', ''themefiles''], Dir),
     ([''config'', ''custom_components'', ''minimalist_ui'', ''dashboard'', ''themefiles'',
       ''minimalist-desktop.yaml''], File ''desktop theme'')]"

definition example_host :: HomeAssistant where
  "example_host =
    \<lparr>config_dir = [''config''], files = example_files, bus = [], services = [],
     lovelace = Some [], panels = [], extra_js_url = [], static_paths = [], jobs = [],
     update_listeners = [], domain_data = False, logged = [],
     get_integration = Inr example_integration, faults = (\<lambda>c. None),
     py_str = (\<lambda>v. ''None'')\<rparr>"

definition example_mui :: MuiBase where
  "example_mui =
    \<lparr>integration = Some example_integration, configuration = MuiConfiguration_init,
     hass = True, system = \<lparr>disabled_reason = None, running = True\<rparr>,
     version = Some ''0.0.1'', session = True\<rparr>"

definition example_world :: world where
  "example_world = \<lparr>mui = example_mui, host = example_host\<rparr>"

definition example_entry :: "pyval centry" where
  "example_entry =
    ConfigEntry ''0123456789abcdef'' ''user''
      [(''language'', PStr ''English (GB)'')] [(''theme'', PStr ''minimalist-mobile'')]
      NOT_LOADED None"

text \<open>The example host after a setup from the config entry has stored its options.\<close>

definition example_entry_world :: world where
  "example_entry_world =
    set_configuration (snd (update_from_dict (entry_dict example_entry) MuiConfiguration_init))
      example_world"

text \<open>The same host when the registration of a static path raises.\<close>

definition example_fault_world :: world where
  "example_fault_world =
    example_world\<lparr>host := example_host
      \<lparr>faults := (\<lambda>c. if c = RegisterStaticPath
                        then Some (HostError ''Cannot register a resource into frozen router'')
                        else None)\<rparr>\<rparr>"

text \<open>The same host when the configured language is not in the table of languages.\<close>

definition example_language_world :: world where
  "example_language_world =
    set_configuration (setattr ''language'' (PStr ''Deutsch'') MuiConfiguration_init)
      example_world"

text \<open>
  The same host after the user has replaced a custom action, once installed as the
  file \<^verbatim>\<open>popup\<close>, by a directory of that name.
\<close>

definition example_conflict_world :: world where
  "example_conflict_world =
    example_world\<lparr>host := example_host\<lparr>files := example_files ++\<^sub>f fmap_of_list
      [([''config'', ''minimalist_ui''], Dir),
       ([''config'', ''minimalist_ui'', ''custom_actions''], Dir),
       ([''config'', ''minimalist_ui'', ''custom_actions'', ''popup''], Dir),
       ([''config'', ''custom_components'', ''minimalist_ui'', ''__ui_minimalist__''], Dir),
       ([''config'', ''custom_components'', ''minimalist_ui'', ''__ui_minimalist__'',
         ''mui_templates''], Dir),
       ([''config'', ''custom_components'', ''minimalist_ui'', ''__ui_minimalist__'',
         ''mui_templates'', ''custom_actions''], Dir),
       ([''config'', ''custom_components'', ''minimalist_ui'', ''__ui_minimalist__'',
         ''mui_templates'', ''custom_actions'', ''popup''], File ''old action'')]\<rparr>\<rparr>"


section \<open>Observations that a statement leaves unchanged\<close>

definition preserves :: "(world \<Rightarrow> 'a) \<Rightarrow> action \<Rightarrow> bool" where
  "preserves f a = (\<forall>w. f (snd (a w)) = f w)"

text \<open>An observation that does not look at the file system.\<close>

definition files_blind :: "(world \<Rightarrow> 'a) \<Rightarrow> bool" where
  "files_blind f = (\<forall>w fs. f (w\<lparr>host := (host w)\<lparr>files := fs\<rparr>\<rparr>) = f w)"

text \<open>
  What the statements of \<^verbatim>\<open>configure_mui\<close> and \<^verbatim>\<open>configure_plugins\<close> only read: the
  MuiBase object and the parts of the host that no call of theirs writes.
\<close>

definition static ::
  "world \<Rightarrow> MuiBase \<times> path \<times> (hostcall \<Rightarrow> pyexn option) \<times> (pyval \<Rightarrow> string) \<times>
     (string \<times> dashboard_config) list option \<times> (pyexn + Integration)" where
  "static w =
    (mui w, config_dir (host w), faults (host w), py_str (host w), lovelace (host w),
     get_integration (host w))"

text \<open>
  A statement \<open>a\<close> acts on the files as the file operation \<open>g\<close> does, in every world
  that agrees with \<open>w0\<close> on what the installer only reads.
\<close>

definition acts :: "action \<Rightarrow> fsop \<Rightarrow> world \<Rightarrow> bool" where
  "acts a g w0 =
    (\<forall>w. static w = static w0 \<longrightarrow>
       fst (a w) = fst (g (files (host w))) \<and>
       files (host (snd (a w))) = snd (g (files (host w))) \<and>
       static (snd (a w)) = static w0)"

section \<open>Blocks of statements\<close>

lemma resume_eq:
  "resume as rw = (case fst rw of Some e \<Rightarrow> rw | None \<Rightarrow> run_all as (snd rw))"
  by (cases rw; cases "fst rw") auto

lemma run_all_Cons:
  "run_all (a # as) w = (case fst (a w) of Some e \<Rightarrow> a w | None \<Rightarrow> run_all as (snd (a w)))"
  by (simp add: resume_eq)

lemma run_all_append:
  "run_all (as @ bs) w = resume bs (run_all as w)"
proof (induction as arbitrary: w)
  case Nil
  then show ?case by simp
next
  case (Cons a as)
  show ?case
  proof (cases "a w")
    case (Pair r w')
    then show ?thesis using Cons.IH [of w'] by (cases r) simp_all
  qed
qed

lemma preserves_run_all:
  "(\<And>a. a \<in> set as \<Longrightarrow> preserves f a) \<Longrightarrow> preserves f (run_all as)"
proof (induction as)
  case Nil
  then show ?case by (simp add: preserves_def)
next
  case (Cons a as)
  have a: "preserves f a" and r: "preserves f (run_all as)"
    using Cons by simp_all
  show ?case
    unfolding preserves_def
  proof
    fix w
    have "f (snd (a w)) = f w" and "f (snd (run_all as (snd (a w)))) = f (snd (a w))"
      using a r by (simp_all add: preserves_def)
    then show "f (snd (run_all (a # as) w)) = f w"
      by (cases "fst (a w)") (simp_all add: resume_eq)
  qed
qed

lemma preserves_on_files:
  "(\<And>w fs. f (w\<lparr>host := (host w)\<lparr>files := fs\<rparr>\<rparr>) = f w) \<Longrightarrow> preserves f (on_files g)"
  by (simp add: preserves_def on_files_def split: prod.splits)

lemma preserves_host_call:
  "(\<And>w. f (w\<lparr>host := g (host w)\<rparr>) = f w) \<Longrightarrow> preserves f (host_call c g)"
  by (simp add: preserves_def host_call_def split: option.splits)

lemma preserves_need_hass: "preserves f need_hass"
  by (simp add: preserves_def need_hass_def)

section \<open>The handler of the setup steps\<close>

lemma disable_mui_LOAD_MUI:
  "disable_mui LOAD_MUI w =
    (None, if disabled_reason (system (mui w)) = Some LOAD_MUI then w
           else set_disabled_reason (Some LOAD_MUI) w)"
  by (simp add: disable_mui_def)

lemma try_step_ok:
  "fst (body w) = None \<Longrightarrow> try_step body w = (Inr True, snd (body w))"
  by (cases "body w") (simp add: try_step_def)

lemma try_step_raise:
  assumes "fst (body w) = Some e"
  shows "fst (try_step body w) = Inr False"
    and "disabled_reason (system (mui (snd (try_step body w)))) = Some LOAD_MUI"
    and "running (system (mui (snd (try_step body w)))) = running (system (mui (snd (body w))))"
    and "logged (host (snd (try_step body w))) = logged (host (snd (body w))) @ [LogExc e]"
  using assms
  by (cases "body w";
      simp add: try_step_def disable_mui_LOAD_MUI set_disabled_reason_def log_exc_def)+

lemma try_step_bool: "\<exists>b. fst (try_step body w) = Inr b"
  by (cases "body w"; cases "fst (body w)")
     (auto simp: try_step_def disable_mui_LOAD_MUI)

section \<open>The dependency check\<close>

lemma run_all_ok:
  assumes "\<And>a w. a \<in> set as \<Longrightarrow> I w \<Longrightarrow> fst (a w) = None \<and> I (snd (a w))"
    and "I w"
  shows "fst (run_all as w) = None \<and> I (snd (run_all as w))"
  using assms
proof (induction as arbitrary: w)
  case Nil
  then show ?case by simp
next
  case (Cons a as)
  have a: "fst (a w) = None" "I (snd (a w))"
    using Cons.prems(1) [of a w] Cons.prems(2) by simp_all
  have "fst (run_all as (snd (a w))) = None \<and> I (snd (run_all as (snd (a w))))"
    using Cons.IH [of "snd (a w)"] Cons.prems(1) a(2) by simp
  then show ?case using a by (simp add: resume_eq)
qed

lemma static_log_msg [simp]: "static (log_msg l s w) = static w"
  by (simp add: static_def log_msg_def)

lemma static_log_exc [simp]: "static (log_exc e w) = static w"
  by (simp add: static_def log_exc_def)

lemma static_files [simp]: "static (w\<lparr>host := (host w)\<lparr>files := fs\<rparr>\<rparr>) = static w"
  by (simp add: static_def)

lemma static_D:
  assumes "static w' = static w"
  shows "mui w' = mui w" "config_dir (host w') = config_dir (host w)"
    "faults (host w') = faults (host w)" "py_str (host w') = py_str (host w)"
    "lovelace (host w') = lovelace (host w)"
    "get_integration (host w') = get_integration (host w)"
    "conf w' k = conf w k" "config_path w' s = config_path w s" "theme_dir w' = theme_dir w"
  using assms
  by (auto simp add: static_def conf_def config_path_def theme_dir_def fstring_def
      split: pyval.splits)

lemma fold_check_dependency_static [simp]:
  "static (fold check_dependency ps w) = static w"
  by (induction ps arbitrary: w) (simp_all add: check_dependency_def)

lemma preserves_static_plugins:
  "preserves static check_browser_mod"
  "preserves static check_dependencies"
  "preserves static (add_extra_js_url c)"
  "preserves static register_static_path"
proof -
  show "preserves static check_browser_mod"
    by (simp add: preserves_def check_browser_mod_def)
  show "preserves static check_dependencies"
    by (simp add: preserves_def check_dependencies_def)
  show "preserves static (add_extra_js_url c)"
    by (simp add: preserves_def add_extra_js_url_def host_call_def static_def
        split: option.splits)
  show "preserves static register_static_path"
    by (simp add: preserves_def register_static_path_def host_call_def static_def
        split: option.splits)
qed

lemma preserves_static_add_extra_js_urls: "preserves static add_extra_js_urls"
proof -
  have "preserves static (run_all (map add_extra_js_url dependency_resource_paths))"
    by (rule preserves_run_all) (auto simp: preserves_static_plugins)
  then show ?thesis
    by (simp add: preserves_def add_extra_js_urls_def)
qed

lemma preserves_static_configure_plugins_body: "preserves static configure_plugins_body"
  unfolding configure_plugins_body_def
  by (rule preserves_run_all)
     (auto simp: preserves_static_plugins preserves_static_add_extra_js_urls
        preserves_need_hass)

lemma add_extra_js_urls_ok:
  assumes "faults (host w) AddExtraJsUrl = None"
  shows "fst (add_extra_js_urls w) = None"
proof -
  let ?I = "\<lambda>w'. static w' = static w"
  have "fst (run_all (map add_extra_js_url dependency_resource_paths) w) = None \<and>
        ?I (snd (run_all (map add_extra_js_url dependency_resource_paths) w))"
  proof (rule run_all_ok [where I = ?I])
    fix a w' assume a: "a \<in> set (map add_extra_js_url dependency_resource_paths)"
      and I: "static w' = static w"
    from a obtain c where c: "a = add_extra_js_url c" by auto
    have "faults (host w') AddExtraJsUrl = None"
      using static_D(3) [OF I] assms by simp
    then have "fst (a w') = None"
      by (simp add: c add_extra_js_url_def host_call_def)
    moreover have "static (snd (a w')) = static w'"
      using preserves_static_plugins(3) [of c] by (simp add: c preserves_def)
    ultimately show "fst (a w') = None \<and> static (snd (a w')) = static w"
      using I by simp
  qed simp
  then show ?thesis by (simp add: add_extra_js_urls_def)
qed

lemma configure_plugins_body_ok:
  assumes "hass (mui w)" "integration (mui w) \<noteq> None"
    "faults (host w) AddExtraJsUrl = None" "faults (host w) RegisterStaticPath = None"
  shows "fst (configure_plugins_body w) = None"
proof -
  let ?I = "\<lambda>w'. static w' = static w"
  have "fst (configure_plugins_body w) = None \<and> ?I (snd (configure_plugins_body w))"
    unfolding configure_plugins_body_def
  proof (rule run_all_ok [where I = ?I])
    fix a w'
    assume a: "a \<in> set [need_hass, check_browser_mod, check_dependencies, add_extra_js_urls,
                         register_static_path]"
      and I: "static w' = static w"
    have m: "mui w' = mui w" and f: "faults (host w') = faults (host w)"
      using static_D [OF I] by simp_all
    have p: "preserves static a"
      using a preserves_static_plugins preserves_static_add_extra_js_urls preserves_need_hass
      by auto
    have "fst (a w') = None"
      using a assms m f add_extra_js_urls_ok [of w']
      by (auto simp: need_hass_def check_browser_mod_def check_dependencies_def
          register_static_path_def host_call_def)
    then show "fst (a w') = None \<and> static (snd (a w')) = static w"
      using p I by (simp add: preserves_def)
  qed simp
  then show ?thesis by simp
qed

lemma static_on_files [simp]: "static (snd (on_files g w)) = static w"
  by (simp add: on_files_def split: prod.splits)

lemma static_host_call:
  "(\<And>h. (config_dir (g h), faults (g h), py_str (g h), lovelace (g h), get_integration (g h))
        = (config_dir h, faults h, py_str h, lovelace h, get_integration h))
   \<Longrightarrow> static (snd (host_call c g w)) = static w"
  by (simp add: host_call_def static_def split: option.splits)

lemma files_blind_static: "files_blind static"
  by (simp add: files_blind_def)

lemma files_blind_on_files: "files_blind f \<Longrightarrow> f (snd (on_files g w)) = f w"
  by (simp add: files_blind_def on_files_def split: prod.splits)

lemma preserves_copies:
  assumes "files_blind f"
  shows "preserves f (copy_default_language i)"
    "preserves f (copy_dashboard i)"
    "preserves f (copy_custom_actions i)"
    "preserves f (copy_language i l)"
    "preserves f (copy_templates i)"
    "preserves f (copy_user_actions i)"
    "preserves f (copy_themes i)"
    "preserves f (on_files g)"
    "preserves f cleanup_configs"
    "preserves f cleanup_addons"
    "preserves f make_dashboard_dir"
    "preserves f make_custom_actions_dir"
  by (simp_all add: preserves_def copy_default_language_def copy_dashboard_def
      copy_custom_actions_def copy_language_def copy_templates_def copy_user_actions_def
      copy_themes_def cleanup_configs_def cleanup_addons_def make_dashboard_dir_def
      make_custom_actions_dir_def files_blind_on_files [OF assms])

lemma preserves_copy_files:
  assumes "files_blind f"
  shows "preserves f (copy_files i)"
proof -
  have "preserves f (run_all
     [copy_default_language i, copy_dashboard i, copy_custom_actions i,
      copy_language i l, copy_templates i, copy_user_actions i, copy_themes i])" for l
    by (rule preserves_run_all) (auto simp: preserves_copies [OF assms])
  then have r: "f (snd (run_all
     [copy_default_language i, copy_dashboard i, copy_custom_actions i,
      copy_language i l, copy_templates i, copy_user_actions i, copy_themes i] w)) = f w"
    for l w
    unfolding preserves_def by blast
  show ?thesis
    unfolding preserves_def copy_files_def
    by (auto split: sum.splits simp del: run_all.simps simp: r)
qed

lemma preserves_copy_assets:
  assumes "files_blind f"
  shows "preserves f copy_assets"
proof -
  have "preserves f (run_all [on_files (makedirs (templates_dir i)), copy_files i])" for i
    by (rule preserves_run_all)
       (auto simp: preserves_copy_files [OF assms] preserves_copies(8) [OF assms])
  then have r: "f (snd (run_all [on_files (makedirs (templates_dir i)), copy_files i] w))
      = f w" for i w
    unfolding preserves_def by blast
  show ?thesis
    unfolding preserves_def copy_assets_def
    by (auto split: option.splits simp del: run_all.simps simp: r)
qed

lemma preserves_static_mui_statements:
  "preserves static fire_reload"
  "preserves static register_reload_service"
  by (simp_all add: preserves_def fire_reload_def register_reload_service_def
      static_host_call)

lemma preserves_static_configure_mui_body: "preserves static configure_mui_body"
  unfolding configure_mui_body_def
  by (rule preserves_run_all)
     (auto simp: preserves_static_mui_statements preserves_copies [OF files_blind_static]
        preserves_copy_assets [OF files_blind_static] preserves_need_hass)

lemma configure_mui_ok_static:
  assumes "fst (configure_mui w) = Inr True"
  shows "static (snd (configure_mui w)) = static w"
proof -
  let ?w0 = "log_msg INFO ''Setup MUI Configuration'' w"
  have "fst (configure_mui_body ?w0) = None"
  proof (rule ccontr)
    assume "fst (configure_mui_body ?w0) \<noteq> None"
    then obtain e where "fst (configure_mui_body ?w0) = Some e" by auto
    from try_step_raise(1) [of configure_mui_body ?w0 e, OF this] assms show False
      by (simp add: configure_mui_def)
  qed
  then have "configure_mui w = (Inr True, snd (configure_mui_body ?w0))"
    by (simp add: configure_mui_def try_step_ok)
  then show ?thesis
    using preserves_static_configure_mui_body by (simp add: preserves_def)
qed

lemma configure_plugins_ok_static:
  assumes "configure_plugins_exception w = None"
  shows "fst (configure_plugins w) = Inr True"
    and "static (snd (configure_plugins w)) = static w"
proof -
  let ?w0 = "log_msg DEBUG ''Checking Dependencies.'' w"
  have "configure_plugins w = (Inr True, snd (configure_plugins_body ?w0))"
    using assms by (simp add: configure_plugins_def configure_plugins_exception_def try_step_ok)
  then show "fst (configure_plugins w) = Inr True"
    and "static (snd (configure_plugins w)) = static w"
    using preserves_static_configure_plugins_body by (simp_all add: preserves_def)
qed

lemma configure_plugins_exception_None:
  assumes "hass (mui w)" "integration (mui w) \<noteq> None"
    "faults (host w) AddExtraJsUrl = None" "faults (host w) RegisterStaticPath = None"
  shows "configure_plugins_exception w = None"
  unfolding configure_plugins_exception_def
  by (rule configure_plugins_body_ok) (use assms in \<open>simp_all add: log_msg_def\<close>)

lemma configure_dashboard_exception_None:
  assumes "hass (mui w)" "lovelace (host w) \<noteq> None"
    "faults (host w) LovelaceYAMLInit = None" "faults (host w) RegisterPanel = None"
    "faults (host w) RemovePanel = None"
  shows "configure_dashboard_exception w = None"
  using assms
  by (auto simp: configure_dashboard_exception_def configure_dashboard_body_def need_hass_def
      register_or_remove_def store_dashboard_def register_panel_def remove_panel_def
      host_call_def)

text \<open>
  Claim C3, as amended. The dependency check leaves the lifecycle state as it is and
  returns true whenever nothing under its \<^verbatim>\<open>try\<close> raises, which is the case for every
  state of the file system once the MuiBase object is initialized and the host
  accepts the resource URLs and the static path: a missing or an unexpected resource
  directory is only logged. When a statement under the \<^verbatim>\<open>try\<close> raises, the check
  disables the system with LOAD_MUI and returns false.
\<close>

theorem C3_configure_plugins_lifecycle:
  "(hass (mui w) \<and> integration (mui w) \<noteq> None \<and>
    faults (host w) AddExtraJsUrl = None \<and> faults (host w) RegisterStaticPath = None
      \<longrightarrow> configure_plugins_exception w = None) \<and>
   (configure_plugins_exception w = None \<longrightarrow>
      fst (configure_plugins w) = Inr True \<and>
      system (mui (snd (configure_plugins w))) = system (mui w)) \<and>
   (configure_plugins_exception w \<noteq> None \<longrightarrow>
      fst (configure_plugins w) = Inr False \<and>
      disabled_reason (system (mui (snd (configure_plugins w)))) = Some LOAD_MUI \<and>
      running (system (mui (snd (configure_plugins w)))) = running (system (mui w)))"
proof (intro conjI impI)
  assume "hass (mui w) \<and> integration (mui w) \<noteq> None \<and>
    faults (host w) AddExtraJsUrl = None \<and> faults (host w) RegisterStaticPath = None"
  then show "configure_plugins_exception w = None"
    by (simp add: configure_plugins_exception_None)
next
  assume a: "configure_plugins_exception w = None"
  show "fst (configure_plugins w) = Inr True"
    by (rule configure_plugins_ok_static(1) [OF a])
  show "system (mui (snd (configure_plugins w))) = system (mui w)"
    using static_D(1) [OF configure_plugins_ok_static(2) [OF a]] by simp
next
  let ?w0 = "log_msg DEBUG ''Checking Dependencies.'' w"
  assume "configure_plugins_exception w \<noteq> None"
  then obtain e where e: "fst (configure_plugins_body ?w0) = Some e"
    by (auto simp: configure_plugins_exception_def)
  have m: "mui (snd (configure_plugins_body ?w0)) = mui w"
    using static_D(1) [of "snd (configure_plugins_body ?w0)" ?w0]
      preserves_static_configure_plugins_body
    by (simp add: preserves_def log_msg_def)
  show "fst (configure_plugins w) = Inr False"
    using try_step_raise(1) [of configure_plugins_body ?w0 e, OF e] by (simp add: configure_plugins_def)
  show "disabled_reason (system (mui (snd (configure_plugins w)))) = Some LOAD_MUI"
    using try_step_raise(2) [of configure_plugins_body ?w0 e, OF e] by (simp add: configure_plugins_def)
  show "running (system (mui (snd (configure_plugins w)))) = running (system (mui w))"
    using try_step_raise(3) [of configure_plugins_body ?w0 e, OF e] m by (simp add: configure_plugins_def)
qed

lemma example_world_facts:
  "hass (mui example_world)" "integration (mui example_world) \<noteq> None"
  "faults (host example_world) c = None" "lovelace (host example_world) \<noteq> None"
  "disabled_reason (system (mui example_world)) = None"
  by (simp_all add: example_world_def example_mui_def example_host_def)

theorem C3_configure_plugins_lifecycle_witness:
  "hass (mui example_world) \<and> integration (mui example_world) \<noteq> None \<and>
   faults (host example_world) AddExtraJsUrl = None \<and>
   faults (host example_world) RegisterStaticPath = None \<and>
   configure_plugins_exception example_world = None \<and>
   fst (configure_plugins example_world) = Inr True \<and>
   system (mui (snd (configure_plugins example_world))) = system (mui example_world) \<and>
   configure_plugins_exception example_fault_world \<noteq> None \<and>
   fst (configure_plugins example_fault_world) = Inr False \<and>
   disabled_reason (system (mui (snd (configure_plugins example_fault_world))))
     = Some LOAD_MUI"
proof -
  have f: "configure_plugins_exception example_fault_world \<noteq> None"
    by code_simp
  show ?thesis
    using C3_configure_plugins_lifecycle [of example_world]
      C3_configure_plugins_lifecycle [of example_fault_world] f
    by (simp add: example_world_facts)
qed

theorem C3_configure_plugins_lifecycle_counterexample:
  "disabled_reason (system (mui example_fault_world)) = None \<and>
   disabled_reason (system (mui (snd (configure_plugins example_fault_world))))
     = Some LOAD_MUI"
  by code_simp

section \<open>The setup sequence\<close>

lemma step_bool:
  "\<exists>b. fst (configure_mui w) = Inr b"
  "\<exists>b. fst (configure_plugins w) = Inr b"
  "\<exists>b. fst (configure_dashboard w) = Inr b"
  by (simp_all add: configure_mui_def configure_plugins_def configure_dashboard_def
      try_step_bool)

lemma step_raise:
  "configure_mui_exception w = Some e \<Longrightarrow>
     fst (configure_mui w) = Inr False \<and>
     disabled_reason (system (mui (snd (configure_mui w)))) = Some LOAD_MUI \<and>
     last (logged (host (snd (configure_mui w)))) = LogExc e"
  "configure_plugins_exception w = Some e \<Longrightarrow>
     fst (configure_plugins w) = Inr False \<and>
     disabled_reason (system (mui (snd (configure_plugins w)))) = Some LOAD_MUI \<and>
     last (logged (host (snd (configure_plugins w)))) = LogExc e"
  "configure_dashboard_exception w = Some e \<Longrightarrow>
     fst (configure_dashboard w) = Inr False \<and>
     disabled_reason (system (mui (snd (configure_dashboard w)))) = Some LOAD_MUI \<and>
     last (logged (host (snd (configure_dashboard w)))) = LogExc e"
proof -
  show "configure_mui_exception w = Some e \<Longrightarrow>
     fst (configure_mui w) = Inr False \<and>
     disabled_reason (system (mui (snd (configure_mui w)))) = Some LOAD_MUI \<and>
     last (logged (host (snd (configure_mui w)))) = LogExc e"
    using try_step_raise [of configure_mui_body "log_msg INFO ''Setup MUI Configuration'' w" e]
    by (simp add: configure_mui_def configure_mui_exception_def)
  show "configure_plugins_exception w = Some e \<Longrightarrow>
     fst (configure_plugins w) = Inr False \<and>
     disabled_reason (system (mui (snd (configure_plugins w)))) = Some LOAD_MUI \<and>
     last (logged (host (snd (configure_plugins w)))) = LogExc e"
    using try_step_raise [of configure_plugins_body "log_msg DEBUG ''Checking Dependencies.'' w" e]
    by (simp add: configure_plugins_def configure_plugins_exception_def)
  show "configure_dashboard_exception w = Some e \<Longrightarrow>
     fst (configure_dashboard w) = Inr False \<and>
     disabled_reason (system (mui (snd (configure_dashboard w)))) = Some LOAD_MUI \<and>
     last (logged (host (snd (configure_dashboard w)))) = LogExc e"
    using try_step_raise [of "configure_dashboard_body (the_dashboard_config w)" w e]
    by (simp add: configure_dashboard_def configure_dashboard_exception_def)
qed

lemma async_startup_cases:
  "fst (configure_mui w) \<noteq> Inr True \<Longrightarrow> async_startup w = configure_mui w"
  "fst (configure_mui w) = Inr True \<Longrightarrow> fst (configure_plugins (after_mui w)) \<noteq> Inr True \<Longrightarrow>
     async_startup w = configure_plugins (after_mui w)"
  "fst (configure_mui w) = Inr True \<Longrightarrow> fst (configure_plugins (after_mui w)) = Inr True \<Longrightarrow>
     fst (configure_dashboard (after_plugins w)) \<noteq> Inr True \<Longrightarrow>
     async_startup w = configure_dashboard (after_plugins w)"
  "fst (configure_mui w) = Inr True \<Longrightarrow> fst (configure_plugins (after_mui w)) = Inr True \<Longrightarrow>
     fst (configure_dashboard (after_plugins w)) = Inr True \<Longrightarrow>
     async_startup w = (Inr True, enable_mui (after_dashboard w))"
proof -
  show "fst (configure_mui w) \<noteq> Inr True \<Longrightarrow> async_startup w = configure_mui w"
    by (cases "configure_mui w") (auto simp: async_startup_def split: sum.splits bool.splits)
  show "fst (configure_mui w) = Inr True \<Longrightarrow> fst (configure_plugins (after_mui w)) \<noteq> Inr True \<Longrightarrow>
     async_startup w = configure_plugins (after_mui w)"
    by (cases "configure_mui w"; cases "configure_plugins (after_mui w)")
       (auto simp: async_startup_def after_mui_def split: sum.splits bool.splits)
  show "fst (configure_mui w) = Inr True \<Longrightarrow> fst (configure_plugins (after_mui w)) = Inr True \<Longrightarrow>
     fst (configure_dashboard (after_plugins w)) \<noteq> Inr True \<Longrightarrow>
     async_startup w = configure_dashboard (after_plugins w)"
    by (cases "configure_mui w"; cases "configure_plugins (after_mui w)";
        cases "configure_dashboard (after_plugins w)")
       (auto simp: async_startup_def after_mui_def after_plugins_def
          split: sum.splits bool.splits)
  show "fst (configure_mui w) = Inr True \<Longrightarrow> fst (configure_plugins (after_mui w)) = Inr True \<Longrightarrow>
     fst (configure_dashboard (after_plugins w)) = Inr True \<Longrightarrow>
     async_startup w = (Inr True, enable_mui (after_dashboard w))"
    by (cases "configure_mui w"; cases "configure_plugins (after_mui w)";
        cases "configure_dashboard (after_plugins w)")
       (auto simp: async_startup_def after_mui_def after_plugins_def after_dashboard_def
          disabled_def enable_mui_def log_msg_def set_disabled_reason_def Let_def
          split: sum.splits bool.splits)
qed

lemma enable_mui_reason [simp]: "disabled_reason (system (mui (enable_mui w))) = None"
  by (simp add: enable_mui_def log_msg_def set_disabled_reason_def)

lemma async_startup_bool: "\<exists>b. fst (async_startup w) = Inr b"
proof (cases "fst (configure_mui w) = Inr True")
  case False
  then show ?thesis using async_startup_cases(1) [of w] step_bool(1) [of w] by simp
next
  case m: True
  show ?thesis
  proof (cases "fst (configure_plugins (after_mui w)) = Inr True")
    case False
    then show ?thesis
      using async_startup_cases(2) [OF m] step_bool(2) [of "after_mui w"] by simp
  next
    case p: True
    show ?thesis
    proof (cases "fst (configure_dashboard (after_plugins w)) = Inr True")
      case False
      then show ?thesis
        using async_startup_cases(3) [OF m p] step_bool(3) [of "after_plugins w"] by simp
    next
      case True
      then show ?thesis using async_startup_cases(4) [OF m p] by auto
    qed
  qed
qed

lemma start_integration_eq:
  assumes "get_integration (host w) = Inr i"
  shows "fst (start_integration w) = fst (async_startup (attach i w))"
    and "fst (async_startup (attach i w)) = Inr True \<Longrightarrow>
           snd (start_integration w) = enable_mui (snd (async_startup (attach i w)))"
    and "fst (async_startup (attach i w)) \<noteq> Inr True \<Longrightarrow>
           snd (start_integration w) = snd (async_startup (attach i w))"
  using assms
  by (cases "async_startup (attach i w)";
      auto simp: start_integration_def split: sum.splits bool.splits)+

text \<open>
  Claim C4. None of the three setup steps lets an exception out: each returns a
  boolean, and so do \<^verbatim>\<open>async_startup\<close> and, once the host has found the integration,
  the rest of the setup. An exception raised under the \<^verbatim>\<open>try\<close> of a step is logged
  (it is the last entry of the log when the step returns), the system is left
  disabled for LOAD_MUI, and the step returns false.
\<close>

theorem C4_steps_catch_exceptions:
  "(\<exists>b. fst (configure_mui w) = Inr b) \<and>
   (\<exists>b. fst (configure_plugins w) = Inr b) \<and>
   (\<exists>b. fst (configure_dashboard w) = Inr b) \<and>
   (\<exists>b. fst (async_startup w) = Inr b) \<and>
   (\<forall>i. get_integration (host w) = Inr i \<longrightarrow> (\<exists>b. fst (start_integration w) = Inr b)) \<and>
   (\<forall>e. configure_mui_exception w = Some e \<longrightarrow>
      fst (configure_mui w) = Inr False \<and>
      disabled_reason (system (mui (snd (configure_mui w)))) = Some LOAD_MUI \<and>
      last (logged (host (snd (configure_mui w)))) = LogExc e) \<and>
   (\<forall>e. configure_plugins_exception w = Some e \<longrightarrow>
      fst (configure_plugins w) = Inr False \<and>
      disabled_reason (system (mui (snd (configure_plugins w)))) = Some LOAD_MUI \<and>
      last (logged (host (snd (configure_plugins w)))) = LogExc e) \<and>
   (\<forall>e. configure_dashboard_exception w = Some e \<longrightarrow>
      fst (configure_dashboard w) = Inr False \<and>
      disabled_reason (system (mui (snd (configure_dashboard w)))) = Some LOAD_MUI \<and>
      last (logged (host (snd (configure_dashboard w)))) = LogExc e)"
proof -
  have "\<exists>b. fst (start_integration w) = Inr b" if "get_integration (host w) = Inr i" for i
    using start_integration_eq(1) [OF that] async_startup_bool [of "attach i w"] by simp
  then show ?thesis
    using step_bool [of w] async_startup_bool [of w] step_raise [of w] by blast
qed

lemma example_fault_world_exception:
  "configure_plugins_exception example_fault_world
     = Some (HostError ''Cannot register a resource into frozen router'')"
  by code_simp

lemma example_language_world_exception:
  "configure_mui_exception example_language_world = Some KeyError"
  by code_simp

theorem C4_steps_catch_exceptions_witness:
  "get_integration (host example_language_world) = Inr example_integration \<and>
   (\<exists>b. fst (start_integration example_language_world) = Inr b) \<and>
   configure_mui_exception example_language_world = Some KeyError \<and>
   fst (configure_mui example_language_world) = Inr False \<and>
   disabled_reason (system (mui (snd (configure_mui example_language_world))))
     = Some LOAD_MUI \<and>
   last (logged (host (snd (configure_mui example_language_world)))) = LogExc KeyError"
  using C4_steps_catch_exceptions [of example_language_world]
    example_language_world_exception
  by (simp add: example_language_world_def set_configuration_def example_world_def
      example_host_def)

lemma configure_dashboard_ok:
  "configure_dashboard_exception w = None \<Longrightarrow> fst (configure_dashboard w) = Inr True"
  by (simp add: configure_dashboard_def configure_dashboard_exception_def try_step_ok)


text \<open>
  Claim C2. \<^verbatim>\<open>async_startup\<close> runs \<^verbatim>\<open>configure_mui\<close>, then \<^verbatim>\<open>configure_plugins\<close>, then
  \<^verbatim>\<open>configure_dashboard\<close>, each in the world the one before left, and stops at the
  first that does not return true: its result and final world are then those of that
  step. When all three return true the system is enabled (no disabled reason) and
  the result is true. When the body of a step raises, the result is false and the
  system is disabled for LOAD_MUI. The setup, from the point where the host has
  found the integration, returns what \<^verbatim>\<open>async_startup\<close> returns, enabled on true and
  in the world of the failed step on false.
\<close>

theorem C2_setup_sequence:
  "(fst (configure_mui w) \<noteq> Inr True \<longrightarrow> async_startup w = configure_mui w) \<and>
   (fst (configure_mui w) = Inr True \<and> fst (configure_plugins (after_mui w)) \<noteq> Inr True \<longrightarrow>
      async_startup w = configure_plugins (after_mui w)) \<and>
   (fst (configure_mui w) = Inr True \<and> fst (configure_plugins (after_mui w)) = Inr True \<and>
    fst (configure_dashboard (after_plugins w)) \<noteq> Inr True \<longrightarrow>
      async_startup w = configure_dashboard (after_plugins w)) \<and>
   (fst (configure_mui w) = Inr True \<and> fst (configure_plugins (after_mui w)) = Inr True \<and>
    fst (configure_dashboard (after_plugins w)) = Inr True \<longrightarrow>
      async_startup w = (Inr True, enable_mui (after_dashboard w)) \<and>
      disabled_reason (system (mui (snd (async_startup w)))) = None) \<and>
   (configure_mui_exception w \<noteq> None \<longrightarrow>
      fst (async_startup w) = Inr False \<and>
      disabled_reason (system (mui (snd (async_startup w)))) = Some LOAD_MUI) \<and>
   (fst (configure_mui w) = Inr True \<and> configure_plugins_exception (after_mui w) \<noteq> None \<longrightarrow>
      fst (async_startup w) = Inr False \<and>
      disabled_reason (system (mui (snd (async_startup w)))) = Some LOAD_MUI) \<and>
   (fst (configure_mui w) = Inr True \<and> fst (configure_plugins (after_mui w)) = Inr True \<and>
    configure_dashboard_exception (after_plugins w) \<noteq> None \<longrightarrow>
      fst (async_startup w) = Inr False \<and>
      disabled_reason (system (mui (snd (async_startup w)))) = Some LOAD_MUI) \<and>
   (\<forall>i. get_integration (host w) = Inr i \<longrightarrow>
      fst (start_integration w) = fst (async_startup (attach i w)) \<and>
      (fst (async_startup (attach i w)) = Inr True \<longrightarrow>
         disabled_reason (system (mui (snd (start_integration w)))) = None) \<and>
      (fst (async_startup (attach i w)) \<noteq> Inr True \<longrightarrow>
         snd (start_integration w) = snd (async_startup (attach i w))))"
proof (intro conjI impI allI)
  assume "configure_mui_exception w \<noteq> None"
  then obtain e where "configure_mui_exception w = Some e" by auto
  from step_raise(1) [OF this]
  have r: "fst (configure_mui w) = Inr False"
    "disabled_reason (system (mui (snd (configure_mui w)))) = Some LOAD_MUI" by simp_all
  then have "async_startup w = configure_mui w"
    using async_startup_cases(1) [of w] by simp
  then show "fst (async_startup w) = Inr False"
    "disabled_reason (system (mui (snd (async_startup w)))) = Some LOAD_MUI"
    using r by simp_all
next
  assume a: "fst (configure_mui w) = Inr True \<and> configure_plugins_exception (after_mui w) \<noteq> None"
  then obtain e where "configure_plugins_exception (after_mui w) = Some e" by auto
  from step_raise(2) [OF this]
  have r: "fst (configure_plugins (after_mui w)) = Inr False"
    "disabled_reason (system (mui (snd (configure_plugins (after_mui w))))) = Some LOAD_MUI"
    by simp_all
  then have "async_startup w = configure_plugins (after_mui w)"
    using async_startup_cases(2) [of w] a by simp
  then show "fst (async_startup w) = Inr False"
    "disabled_reason (system (mui (snd (async_startup w)))) = Some LOAD_MUI"
    using r by simp_all
next
  assume a: "fst (configure_mui w) = Inr True \<and> fst (configure_plugins (after_mui w)) = Inr True \<and>
    configure_dashboard_exception (after_plugins w) \<noteq> None"
  then obtain e where "configure_dashboard_exception (after_plugins w) = Some e" by auto
  from step_raise(3) [OF this]
  have r: "fst (configure_dashboard (after_plugins w)) = Inr False"
    "disabled_reason (system (mui (snd (configure_dashboard (after_plugins w))))) = Some LOAD_MUI"
    by simp_all
  then have "async_startup w = configure_dashboard (after_plugins w)"
    using async_startup_cases(3) [of w] a by simp
  then show "fst (async_startup w) = Inr False"
    "disabled_reason (system (mui (snd (async_startup w)))) = Some LOAD_MUI"
    using r by simp_all
next
  fix i assume i: "get_integration (host w) = Inr i"
  show "fst (start_integration w) = fst (async_startup (attach i w))"
    by (rule start_integration_eq(1) [OF i])
  show "disabled_reason (system (mui (snd (start_integration w)))) = None"
    if "fst (async_startup (attach i w)) = Inr True"
    using start_integration_eq(2) [OF i that] by simp
  show "snd (start_integration w) = snd (async_startup (attach i w))"
    if "fst (async_startup (attach i w)) \<noteq> Inr True"
    using start_integration_eq(3) [OF i that] .
qed (simp_all add: async_startup_cases)

lemma example_configure_mui_ok: "fst (configure_mui example_world) = Inr True"
  by code_simp

lemma example_startup_ok:
  "fst (configure_plugins (after_mui example_world)) = Inr True"
  "fst (configure_dashboard (after_plugins example_world)) = Inr True"
proof -
  have s1: "static (after_mui example_world) = static example_world"
    unfolding after_mui_def by (rule configure_mui_ok_static [OF example_configure_mui_ok])
  have "configure_plugins_exception (after_mui example_world) = None"
    by (rule configure_plugins_exception_None)
       (simp_all add: static_D [OF s1] example_world_facts)
  from configure_plugins_ok_static [OF this]
  have p: "fst (configure_plugins (after_mui example_world)) = Inr True"
    and s2: "static (snd (configure_plugins (after_mui example_world)))
               = static (after_mui example_world)"
    by simp_all
  show "fst (configure_plugins (after_mui example_world)) = Inr True" by (rule p)
  have s3: "static (after_plugins example_world) = static example_world"
    using s1 s2 by (simp add: after_plugins_def)
  have "configure_dashboard_exception (after_plugins example_world) = None"
    by (rule configure_dashboard_exception_None)
       (simp_all add: static_D [OF s3] example_world_facts)
  then show "fst (configure_dashboard (after_plugins example_world)) = Inr True"
    by (rule configure_dashboard_ok)
qed

theorem C2_setup_sequence_witness:
  "fst (configure_mui example_world) = Inr True \<and>
   fst (configure_plugins (after_mui example_world)) = Inr True \<and>
   fst (configure_dashboard (after_plugins example_world)) = Inr True \<and>
   async_startup example_world = (Inr True, enable_mui (after_dashboard example_world)) \<and>
   disabled_reason (system (mui (snd (async_startup example_world)))) = None \<and>
   get_integration (host example_world) = Inr example_integration \<and>
   fst (start_integration example_world) = Inr True \<and>
   disabled_reason (system (mui (snd (start_integration example_world)))) = None \<and>
   configure_mui_exception example_language_world \<noteq> None \<and>
   fst (async_startup example_language_world) = Inr False \<and>
   disabled_reason (system (mui (snd (async_startup example_language_world))))
     = Some LOAD_MUI"
proof -
  have a: "attach example_integration example_world = example_world"
    by (simp add: attach_def example_world_def example_mui_def example_integration_def)
  have g: "get_integration (host example_world) = Inr example_integration"
    by (simp add: example_world_def example_host_def)
  show ?thesis
    using C2_setup_sequence [of example_world] C2_setup_sequence [of example_language_world]
      example_configure_mui_ok example_startup_ok example_language_world_exception a g
    by simp
qed

text \<open>
  Claim C1. When the configuration record says that it came from a config entry
  (\<^verbatim>\<open>config_type == ConfigurationType.CONFIG_ENTRY\<close>), an initialization with a YAML
  configuration returns true and leaves the record exactly as it was, whatever the
  YAML configuration holds.
\<close>

theorem C1_yaml_ignored_after_config_entry:
  "eq_ConfigurationType (conf w ''config_type'') CONFIG_ENTRY \<Longrightarrow>
   fst (async_initialize_integration config_entry (Some config) w) = Inr True \<and>
   configuration (mui (snd (async_initialize_integration config_entry (Some config) w)))
     = configuration (mui w) \<and>
   fst (async_setup config w) = Inr True \<and>
   configuration (mui (snd (async_setup config w))) = configuration (mui w)"
  by (simp add: async_setup_def async_initialize_integration_def Let_def conf_def
      enable_mui_def MuiBase_new_def log_msg_def set_disabled_reason_def)

theorem C1_yaml_ignored_after_config_entry_witness:
  "eq_ConfigurationType (conf example_entry_world ''config_type'') CONFIG_ENTRY \<and>
   fst (async_setup [(''minimalist_ui'', PDict [(''theme'', PStr ''minimalist-desktop'')])]
          example_entry_world) = Inr True \<and>
   configuration (mui (snd (async_setup
      [(''minimalist_ui'', PDict [(''theme'', PStr ''minimalist-desktop'')])]
      example_entry_world))) = configuration (mui example_entry_world)"
proof -
  have "eq_ConfigurationType (conf example_entry_world ''config_type'') CONFIG_ENTRY"
    by code_simp
  then show ?thesis
    using C1_yaml_ignored_after_config_entry [of example_entry_world None
        "[(''minimalist_ui'', PDict [(''theme'', PStr ''minimalist-desktop'')])]"]
    by simp
qed

section \<open>The reload event\<close>

lemma files_blind_bus: "files_blind (\<lambda>w. bus (host w))"
  by (simp add: files_blind_def)

lemma fire_reload_cases:
  "fst (fire_reload w) = None \<Longrightarrow>
     bus (host (snd (fire_reload w))) = bus (host w) @ [''minimalist_ui_reload'']"
  "fst (fire_reload w) \<noteq> None \<Longrightarrow> snd (fire_reload w) = w"
  by (simp_all add: fire_reload_def host_call_def split: option.splits)

lemma preserves_bus_register: "preserves (\<lambda>w. bus (host w)) register_reload_service"
  by (simp add: preserves_def register_reload_service_def host_call_def split: option.splits)

lemma preserves_bus_reload_user_actions: "preserves (\<lambda>w. bus (host w)) reload_user_actions"
  using preserves_copies(6) [OF files_blind_bus]
  by (simp add: preserves_def reload_user_actions_def split: option.splits)

lemma fire_after:
  assumes p: "preserves (\<lambda>w. bus (host w)) (run_all pre)"
    and q: "preserves (\<lambda>w. bus (host w)) (run_all post)"
  shows "fst (run_all (pre @ fire_reload # post) w) = None \<Longrightarrow>
           bus (host (snd (run_all (pre @ fire_reload # post) w)))
             = bus (host w) @ [''minimalist_ui_reload'']"
proof -
  let ?w1 = "snd (run_all pre w)"
  assume ok: "fst (run_all (pre @ fire_reload # post) w) = None"
  have e: "run_all (pre @ fire_reload # post) w = resume (fire_reload # post) (run_all pre w)"
    by (rule run_all_append)
  have 1: "fst (run_all pre w) = None"
    using ok unfolding e by (cases "fst (run_all pre w)") (simp_all add: resume_eq)
  then have r: "run_all (pre @ fire_reload # post) w = resume post (fire_reload ?w1)"
    unfolding e by (simp add: resume_eq)
  have 2: "fst (fire_reload ?w1) = None"
    using ok unfolding r by (cases "fst (fire_reload ?w1)") (simp_all add: resume_eq)
  then have "run_all (pre @ fire_reload # post) w = run_all post (snd (fire_reload ?w1))"
    unfolding r by (simp add: resume_eq)
  moreover have "bus (host ?w1) = bus (host w)"
    using p by (simp add: preserves_def)
  ultimately show ?thesis
    using q fire_reload_cases(1) [OF 2] by (simp add: preserves_def)
qed

lemma no_fire:
  assumes p: "preserves (\<lambda>w. bus (host w)) (run_all pre)"
  shows "fst (run_all (pre @ [fire_reload]) w) \<noteq> None \<Longrightarrow>
           bus (host (snd (run_all (pre @ [fire_reload]) w))) = bus (host w)"
proof -
  let ?w1 = "snd (run_all pre w)"
  assume bad: "fst (run_all (pre @ [fire_reload]) w) \<noteq> None"
  have e: "run_all (pre @ [fire_reload]) w = resume [fire_reload] (run_all pre w)"
    by (rule run_all_append)
  have b: "bus (host ?w1) = bus (host w)"
    using p by (simp add: preserves_def)
  show ?thesis
  proof (cases "fst (run_all pre w)")
    case (Some x)
    then show ?thesis unfolding e using b by (simp add: resume_eq)
  next
    case None
    then have r: "run_all (pre @ [fire_reload]) w = fire_reload ?w1"
      unfolding e by (simp add: resume_eq prod_eq_iff split: option.splits)
    then have "fst (fire_reload ?w1) \<noteq> None" using bad by simp
    from fire_reload_cases(2) [OF this] show ?thesis using b r by simp
  qed
qed

lemma configure_mui_body_bus:
  "fst (configure_mui_body w) = None \<Longrightarrow>
     bus (host (snd (configure_mui_body w))) = bus (host w) @ [''minimalist_ui_reload'']"
proof -
  let ?pre = "[need_hass, cleanup_configs, cleanup_addons, make_dashboard_dir,
               make_custom_actions_dir, copy_assets]"
  have c: "configure_mui_body = run_all (?pre @ fire_reload # [register_reload_service])"
    by (simp add: configure_mui_body_def)
  have p: "preserves (\<lambda>w. bus (host w)) (run_all ?pre)"
    by (rule preserves_run_all)
       (auto simp: preserves_copies [OF files_blind_bus] preserves_copy_assets [OF files_blind_bus]
          preserves_need_hass)
  have q: "preserves (\<lambda>w. bus (host w)) (run_all [register_reload_service])"
    by (rule preserves_run_all) (auto simp: preserves_bus_register)
  show "fst (configure_mui_body w) = None \<Longrightarrow>
     bus (host (snd (configure_mui_body w))) = bus (host w) @ [''minimalist_ui_reload'']"
    unfolding c by (rule fire_after [OF p q])
qed

text \<open>
  Claim C9, as amended. When \<^verbatim>\<open>configure_mui\<close> returns true it has fired exactly one
  \<^verbatim>\<open>minimalist_ui_reload\<close> event: the bus holds the events it held before and this one
  after them. The same holds for \<^verbatim>\<open>reload_configuration\<close> when it returns; when it
  raises, it has fired no event.
\<close>

theorem C9_reload_event:
  "(fst (configure_mui w) = Inr True \<longrightarrow>
      bus (host (snd (configure_mui w))) = bus (host w) @ [''minimalist_ui_reload'']) \<and>
   (fst (reload_configuration w) = None \<longrightarrow>
      bus (host (snd (reload_configuration w))) = bus (host w) @ [''minimalist_ui_reload'']) \<and>
   (fst (reload_configuration w) \<noteq> None \<longrightarrow>
      bus (host (snd (reload_configuration w))) = bus (host w))"
proof (intro conjI impI)
  let ?w0 = "log_msg INFO ''Setup MUI Configuration'' w"
  assume ok: "fst (configure_mui w) = Inr True"
  have n: "fst (configure_mui_body ?w0) = None"
  proof (rule ccontr)
    assume "fst (configure_mui_body ?w0) \<noteq> None"
    then obtain e where "fst (configure_mui_body ?w0) = Some e" by auto
    from try_step_raise(1) [of configure_mui_body ?w0 e, OF this] ok show False
      by (simp add: configure_mui_def)
  qed
  then have "snd (configure_mui w) = snd (configure_mui_body ?w0)"
    by (simp add: configure_mui_def try_step_ok)
  then show "bus (host (snd (configure_mui w))) = bus (host w) @ [''minimalist_ui_reload'']"
    using configure_mui_body_bus [OF n] by (simp add: log_msg_def)
next
  have c: "reload_configuration = run_all ([need_hass, reload_user_actions] @ fire_reload # [])"
    by (simp add: reload_configuration_def)
  have p: "preserves (\<lambda>w. bus (host w)) (run_all [need_hass, reload_user_actions])"
    by (rule preserves_run_all)
       (auto simp: preserves_bus_reload_user_actions preserves_need_hass)
  have q: "preserves (\<lambda>w. bus (host w)) (run_all [])"
    by (simp add: preserves_def)
  show "bus (host (snd (reload_configuration w))) = bus (host w) @ [''minimalist_ui_reload'']"
    if "fst (reload_configuration w) = None"
    using that unfolding c by (rule fire_after [OF p q])
  show "bus (host (snd (reload_configuration w))) = bus (host w)"
    if "fst (reload_configuration w) \<noteq> None"
    using that unfolding c by (rule no_fire [OF p])
qed

lemma example_conflict_reload:
  "fst (reload_configuration example_conflict_world) = Some ShutilError"
  by code_simp

lemma example_reload_ok: "fst (reload_configuration (after_mui example_world)) = None"
  by code_simp

theorem C9_reload_event_witness:
  "fst (configure_mui example_world) = Inr True \<and>
   bus (host (snd (configure_mui example_world)))
     = bus (host example_world) @ [''minimalist_ui_reload''] \<and>
   fst (reload_configuration (after_mui example_world)) = None \<and>
   bus (host (snd (reload_configuration (after_mui example_world))))
     = bus (host (after_mui example_world)) @ [''minimalist_ui_reload''] \<and>
   fst (reload_configuration example_conflict_world) \<noteq> None \<and>
   bus (host (snd (reload_configuration example_conflict_world)))
     = bus (host example_conflict_world)"
  using C9_reload_event [of example_world] C9_reload_event [of "after_mui example_world"]
    C9_reload_event [of example_conflict_world]
    example_configure_mui_ok example_reload_ok example_conflict_reload
  by simp

theorem C9_reload_event_counterexample:
  "fst (reload_configuration example_conflict_world) = Some ShutilError \<and>
   bus (host example_conflict_world) = [] \<and>
   bus (host (snd (reload_configuration example_conflict_world))) = []"
  by code_simp

section \<open>The cleanup that opens the installer\<close>








lemma dirs_cleaned [simp]:
  "configs_dir (cleaned w) = configs_dir w" "addons_dir (cleaned w) = addons_dir w"
  "configs_dir (log_msg l s w) = configs_dir w" "addons_dir (log_msg l s w) = addons_dir w"
  "configs_dir (w\<lparr>host := (host w)\<lparr>files := fs\<rparr>\<rparr>) = configs_dir w"
  "addons_dir (w\<lparr>host := (host w)\<lparr>files := fs\<rparr>\<rparr>) = addons_dir w"
  by (simp_all add: configs_dir_def addons_dir_def config_path_def cleaned_def log_msg_def)








section \<open>The configuration record\<close>





section \<open>The system status\<close>

text \<open>
  Claim C7. \<^verbatim>\<open>disable_mui\<close> with the reason the system is already disabled for changes
  nothing at all, and after \<^verbatim>\<open>enable_mui\<close> the disabled reason is \<open>None\<close>, whatever the
  state before.
\<close>

theorem C7_disable_same_reason_enable_clears:
  "(disabled_reason (system (mui w)) = Some r \<longrightarrow> disable_mui r w = (None, w)) \<and>
   disabled_reason (system (mui (enable_mui w))) = None"
  by (simp add: disable_mui_def enable_mui_def log_msg_def set_disabled_reason_def)

theorem C7_disable_same_reason_enable_clears_witness:
  "disabled_reason (system (mui (set_disabled_reason (Some LOAD_MUI) example_world)))
     = Some LOAD_MUI \<and>
   disable_mui LOAD_MUI (set_disabled_reason (Some LOAD_MUI) example_world)
     = (None, set_disabled_reason (Some LOAD_MUI) example_world) \<and>
   disabled_reason (system (mui (enable_mui
     (set_disabled_reason (Some LOAD_MUI) example_world)))) = None"
  using C7_disable_same_reason_enable_clears
    [of "set_disabled_reason (Some LOAD_MUI) example_world" LOAD_MUI]
  by (simp add: set_disabled_reason_def)

end
